theory Spec2Isabelle
  imports Main "HOL-Library.Sublist"
begin

section \<open>Errors\<close>

text \<open>
  A thrown JavaScript \<open>Error\<close> is a value carrying its message. Every function of the
  source that can throw returns \<open>error + 'a\<close>, with \<open>Inl\<close> for the throw.
\<close>

datatype error = Error string

section \<open>Regular expressions of the source, as \<open>String.prototype.match\<close> runs them\<close>

text \<open>
  A non-global \<open>url.match(re)\<close> tries the pattern at every start index from the left and
  returns the first success. The patterns of the source all have the shape
  \<open>(?:lit1|lit2|...)(group)\<close>: at one start index the alternatives are tried in their
  written order, and an alternative whose literal matches but whose group fails is backtracked
  over. Strings are lists of characters (the source counts UTF-16 code units; URLs are ASCII).
\<close>

fun first_match :: "(string \<Rightarrow> 'a option) \<Rightarrow> string \<Rightarrow> 'a option" where
  "first_match m [] = m []"
| "first_match m (c # cs) =
     (case m (c # cs) of Some r \<Rightarrow> Some r | None \<Rightarrow> first_match m cs)"

definition after_literal :: "string \<Rightarrow> string \<Rightarrow> string option" where
  "after_literal lit s = (if prefix lit s then Some (drop (length lit) s) else None)"

fun match_here :: "string list \<Rightarrow> (string \<Rightarrow> string option) \<Rightarrow> string \<Rightarrow> string option" where
  "match_here [] grp s = None"
| "match_here (lit # lits) grp s =
     (case after_literal lit s of
        Some rest \<Rightarrow> (case grp rest of Some g \<Rightarrow> Some g | None \<Rightarrow> match_here lits grp s)
      | None \<Rightarrow> match_here lits grp s)"

text \<open>The class \<open>[^&\n?#]\<close> excludes these four characters.\<close>

definition token_stop :: "char \<Rightarrow> bool" where
  "token_stop c \<longleftrightarrow> c = CHR ''&'' \<or> c = CHR 0x0A \<or> c = CHR ''?'' \<or> c = CHR ''#''"

text \<open>\<open>([^&\n?#]+)\<close>: greedy, at least one character, nothing follows it in the pattern.\<close>

definition tracker_token :: "string \<Rightarrow> string option" where
  "tracker_token rest =
     (let t = takeWhile (\<lambda>c. \<not> token_stop c) rest in if t = [] then None else Some t)"

text \<open>The class \<open>[a-zA-Z0-9_-]\<close>.\<close>

definition id_char :: "char \<Rightarrow> bool" where
  "id_char c \<longleftrightarrow>
     c \<in> set ''abcdefghijklmnopqrstuvwxyzABCDEFGHIJKLMNOPQRSTUVWXYZ0123456789_-''"

text \<open>\<open>([a-zA-Z0-9_-]{11})\<close>: exactly eleven characters of the class.\<close>

definition strict_token :: "string \<Rightarrow> string option" where
  "strict_token rest =
     (if 11 \<le> length rest \<and> list_all id_char (take 11 rest) then Some (take 11 rest) else None)"

section \<open>Duplicate tracker (simpleVideoTracker.ts)\<close>

record VideoRecord =
  videoId :: string
  url :: string
  title :: "string option"
  channelName :: "string option"
  scrapedAt :: string
  isAnalyzed :: bool
  analysisFile :: "string option"

record VideoTrackingData =
  videos :: "VideoRecord list"
  lastUpdated :: string

text \<open>
  The tracking file \<open>data/video_tracking.json\<close>. \<open>tracking_file = None\<close> stands for a file
  that is missing, unreadable or not JSON (\<open>readFile\<close> or \<open>JSON.parse\<close> throws);
  \<open>writable\<close> says whether \<open>fs.writeFile\<close> succeeds. The clock is passed in as \<open>now\<close>.
\<close>

record tracker_fs =
  tracking_file :: "VideoTrackingData option"
  writable :: bool

definition write_error :: error where
  "write_error = Error ''EACCES: permission denied, open data/video_tracking.json''"

definition writeFile :: "VideoTrackingData \<Rightarrow> tracker_fs \<Rightarrow> (error + unit) \<times> tracker_fs" where
  "writeFile d fs =
     (if writable fs then (Inr (), fs\<lparr>tracking_file := Some d\<rparr>) else (Inl write_error, fs))"

definition ensureTrackingFile :: "string \<Rightarrow> tracker_fs \<Rightarrow> (error + VideoTrackingData) \<times> tracker_fs" where
  "ensureTrackingFile now fs =
     (case tracking_file fs of
        Some d \<Rightarrow> (Inr d, fs)
      | None \<Rightarrow>
          (let initialData = \<lparr>videos = [], lastUpdated = now\<rparr> in
           case writeFile initialData fs of
             (Inl e, fs') \<Rightarrow> (Inl e, fs')
           | (Inr _, fs') \<Rightarrow> (Inr initialData, fs')))"

definition saveTrackingData :: "string \<Rightarrow> VideoTrackingData \<Rightarrow> tracker_fs \<Rightarrow> (error + unit) \<times> tracker_fs" where
  "saveTrackingData now d fs = writeFile (d\<lparr>lastUpdated := now\<rparr>) fs"

text \<open>\<open>/(?:youtube\.com\/watch\?v=|youtu\.be\/|youtube\.com\/embed\/)([^&\n?#]+)/\<close> at one start index.\<close>

definition tracker_pattern_1 :: "string \<Rightarrow> string option" where
  "tracker_pattern_1 s =
     match_here [''youtube.com/watch?v='', ''youtu.be/'', ''youtube.com/embed/''] tracker_token s"

text \<open>\<open>/youtube\.com\/v\/([^&\n?#]+)/\<close> at one start index.\<close>

definition tracker_pattern_2 :: "string \<Rightarrow> string option" where
  "tracker_pattern_2 s = match_here [''youtube.com/v/''] tracker_token s"

text \<open>
  The loop over \<open>patterns\<close> returns the first group of the first pattern that matches
  (a matched group is never empty, so \<open>match && match[1]\<close> is \<open>match\<close>), and throws when
  neither does.
\<close>

definition extractVideoId :: "string \<Rightarrow> error + string" where
  "extractVideoId u =
     (case first_match tracker_pattern_1 u of
        Some vid \<Rightarrow> Inr vid
      | None \<Rightarrow>
          (case first_match tracker_pattern_2 u of
             Some vid \<Rightarrow> Inr vid
           | None \<Rightarrow> Inl (Error (''Invalid YouTube URL format: '' @ u))))"

text \<open>One element of \<open>results\<close> in \<open>checkDuplicates\<close>.\<close>

record check_result =
  res_url :: string
  res_videoId :: "string option"
  res_exists :: bool
  existingVideo :: "VideoRecord option"
  shouldSkip :: bool
  res_error :: "string option"

record check_summary =
  sum_total :: nat
  sum_duplicates :: nat
  sum_new :: nat
  newUrls :: "string list"
  duplicateUrls :: "string list"

definition error_string :: "error \<Rightarrow> string" where
  "error_string e = (case e of Error m \<Rightarrow> ''Error: '' @ m)"

text \<open>The body of the \<open>for (const url of videoUrls)\<close> loop.\<close>

definition check_one :: "VideoTrackingData \<Rightarrow> string \<Rightarrow> check_result" where
  "check_one trackingData u =
     (case extractVideoId u of
        Inr vid \<Rightarrow>
          (case List.find (\<lambda>v. videoId v = vid) (videos trackingData) of
             Some ex \<Rightarrow>
               \<lparr>res_url = u, res_videoId = Some vid, res_exists = True,
                existingVideo = Some ex, shouldSkip = True, res_error = None\<rparr>
           | None \<Rightarrow>
               \<lparr>res_url = u, res_videoId = Some vid, res_exists = False,
                existingVideo = None, shouldSkip = False, res_error = None\<rparr>)
      | Inl e \<Rightarrow>
          \<lparr>res_url = u, res_videoId = None, res_exists = False,
           existingVideo = None, shouldSkip = False, res_error = Some (error_string e)\<rparr>)"

definition checkDuplicates ::
  "string \<Rightarrow> string list \<Rightarrow> tracker_fs \<Rightarrow> (error + check_result list \<times> check_summary) \<times> tracker_fs" where
  "checkDuplicates now videoUrls fs =
     (case ensureTrackingFile now fs of
        (Inl e, fs') \<Rightarrow> (Inl e, fs')
      | (Inr trackingData, fs') \<Rightarrow>
          (let results = map (check_one trackingData) videoUrls;
               newVideos = filter (\<lambda>r. \<not> res_exists r \<and> res_error r = None) results;
               duplicateVideos = filter res_exists results
           in (Inr (results,
                    \<lparr>sum_total = length videoUrls, sum_duplicates = length duplicateVideos,
                     sum_new = length newVideos, newUrls = map res_url newVideos,
                     duplicateUrls = map res_url duplicateVideos\<rparr>), fs')))"

text \<open>\<open>Array.prototype.findIndex\<close>; \<open>None\<close> is the source's \<open>-1\<close>.\<close>

fun findIndex :: "('a \<Rightarrow> bool) \<Rightarrow> 'a list \<Rightarrow> nat option" where
  "findIndex P [] = None"
| "findIndex P (x # xs) = (if P x then Some 0 else map_option Suc (findIndex P xs))"

text \<open>The argument of \<open>trackNewVideo\<close> (the tool's \<open>videoData\<close>).\<close>

record videoData =
  vd_videoId :: string
  vd_url :: string
  vd_title :: "string option"
  vd_channelName :: "string option"

text \<open>
  \<open>{ ...existing, ...videoRecord }\<close>: the literal \<open>videoRecord\<close> owns the six keys
  \<open>videoId, url, title, channelName, scrapedAt, isAnalyzed\<close> (also when \<open>title\<close> or
  \<open>channelName\<close> is \<open>undefined\<close>), so only \<open>analysisFile\<close> survives from the existing record.
\<close>

definition trackNewVideo ::
  "string \<Rightarrow> videoData \<Rightarrow> tracker_fs \<Rightarrow> (error + VideoRecord) \<times> tracker_fs" where
  "trackNewVideo now vd fs =
     (case ensureTrackingFile now fs of
        (Inl e, fs') \<Rightarrow> (Inl e, fs')
      | (Inr trackingData, fs') \<Rightarrow>
          (let existingIndex = findIndex (\<lambda>v. videoId v = vd_videoId vd) (videos trackingData);
               videoRecord = \<lparr>videoId = vd_videoId vd, url = vd_url vd, title = vd_title vd,
                              channelName = vd_channelName vd, scrapedAt = now,
                              isAnalyzed = False, analysisFile = None\<rparr>;
               trackingData' =
                 (case existingIndex of
                    Some i \<Rightarrow>
                      trackingData\<lparr>videos := (videos trackingData)
                        [i := videoRecord\<lparr>analysisFile := analysisFile (videos trackingData ! i)\<rparr>]\<rparr>
                  | None \<Rightarrow> trackingData\<lparr>videos := videos trackingData @ [videoRecord]\<rparr>)
           in case saveTrackingData now trackingData' fs' of
                (Inl e, fs'') \<Rightarrow> (Inl e, fs'')
              | (Inr _, fs'') \<Rightarrow> (Inr videoRecord, fs'')))"

text \<open>
  A sequence of \<open>track\<close> calls, each at its own time. The tool's \<open>execute\<close> catches a
  throw of \<open>trackNewVideo\<close> and reports \<open>success: false\<close>, so the sequence goes on
  from the file system the failed call left.
\<close>

fun track_all :: "(string \<times> videoData) list \<Rightarrow> tracker_fs \<Rightarrow> tracker_fs" where
  "track_all [] fs = fs"
| "track_all ((now, vd) # rest) fs = track_all rest (snd (trackNewVideo now vd fs))"

text \<open>The index holds at most one record per identifier.\<close>

definition index_unique :: "tracker_fs \<Rightarrow> bool" where
  "index_unique fs =
     (case tracking_file fs of None \<Rightarrow> True | Some d \<Rightarrow> distinct (map videoId (videos d)))"

text \<open>
  The two branches of \<open>trackNewVideo\<close> on the list of records, named for the proofs:
  replace in place at the first index holding the identifier, or append.
\<close>

definition upsert :: "string \<Rightarrow> videoData \<Rightarrow> VideoRecord list \<Rightarrow> VideoRecord list" where
  "upsert now vd xs =
     (let r = \<lparr>videoId = vd_videoId vd, url = vd_url vd, title = vd_title vd,
               channelName = vd_channelName vd, scrapedAt = now,
               isAnalyzed = False, analysisFile = None\<rparr>
      in case findIndex (\<lambda>v. videoId v = vd_videoId vd) xs of
           Some i \<Rightarrow> xs[i := r\<lparr>analysisFile := analysisFile (xs ! i)\<rparr>]
         | None \<Rightarrow> xs @ [r])"

text \<open>The records a reader of the tracking file sees (none when there is no file).\<close>

definition stored_videos :: "tracker_fs \<Rightarrow> VideoRecord list" where
  "stored_videos fs = (case tracking_file fs of Some d \<Rightarrow> videos d | None \<Rightarrow> [])"

section \<open>String helpers of the JavaScript runtime\<close>

text \<open>
  White space as \<open>String.prototype.trim\<close> and \<open>\s\<close> see it, among the code units below 256.
\<close>

definition js_space :: "char \<Rightarrow> bool" where
  "js_space c \<longleftrightarrow>
     c = CHR 0x09 \<or> c = CHR 0x0A \<or> c = CHR 0x0B \<or> c = CHR 0x0C \<or> c = CHR 0x0D \<or>
     c = CHR 0x20 \<or> c = CHR 0xA0"

definition trim :: "string \<Rightarrow> string" where
  "trim s = rev (dropWhile js_space (rev (dropWhile js_space s)))"

text \<open>\<open>Array.prototype.join\<close>.\<close>

fun join :: "string \<Rightarrow> string list \<Rightarrow> string" where
  "join sep [] = []"
| "join sep [x] = x"
| "join sep (x # y # ys) = x @ sep @ join sep (y # ys)"

text \<open>\<open>s.split(' ')\<close>: the pieces between single spaces; the empty string gives one empty piece.\<close>

fun split_space :: "string \<Rightarrow> string list" where
  "split_space [] = [[]]"
| "split_space (c # cs) =
     (if c = CHR '' '' then [] # split_space cs
      else (case split_space cs of [] \<Rightarrow> [[c]] | w # ws \<Rightarrow> (c # w) # ws))"

text \<open>\<open>s.replace(/\s+/g, ' ')\<close>: every maximal run of white space becomes one space.\<close>

fun collapse_from :: "bool \<Rightarrow> string \<Rightarrow> string" where
  "collapse_from in_run [] = []"
| "collapse_from in_run (c # cs) =
     (if js_space c
      then (if in_run then collapse_from True cs else CHR '' '' # collapse_from True cs)
      else c # collapse_from False cs)"

definition collapse_space :: "string \<Rightarrow> string" where
  "collapse_space s = collapse_from False s"

section \<open>Transcript strategies (youtubeScraper.ts)\<close>

datatype strategy = TranscriptPanel | CaptionTrack | DownloadTranscribe

text \<open>
  What a run leaves behind, in order: the strategies it attempted, the temporary audio files
  whose \<open>cleanup\<close> it called, the browser sessions it closed.
\<close>

datatype event = Attempted strategy | CleanedUp string | BrowserClosed

text \<open>\<open>try { body } catch (e) { handler }\<close> and \<open>try { body } finally { fin }\<close> on results.\<close>

definition try_catch :: "error + 'a \<Rightarrow> (error \<Rightarrow> error + 'a) \<Rightarrow> error + 'a" where
  "try_catch body handler = (case body of Inl e \<Rightarrow> handler e | Inr v \<Rightarrow> Inr v)"

definition try_finally :: "error + 'a \<Rightarrow> error + unit \<Rightarrow> error + 'a" where
  "try_finally body fin = (case fin of Inl e \<Rightarrow> Inl e | Inr _ \<Rightarrow> body)"

text \<open>
  The result of \<open>videoDownloaderTool.execute\<close>; \<open>cleanup\<close> is what calling the returned
  function does (\<open>Inl\<close> when it throws). The result of \<open>audioTranscriberTool.execute\<close>.
\<close>

record download_output =
  audioPath :: string
  fileSize :: string
  cleanup :: "error + unit"

record transcription =
  tr_text :: string
  tr_duration :: nat
  tr_language :: string

text \<open>
  The watch page as Puppeteer shows it once the landmark element is there: the text of each
  element the scraper reads (\<open>None\<close> when the element or its text is absent), the
  \<open>content\<close> of each tag element, and the text of each \<open>#content-text\<close> element.
\<close>

record watch_page =
  titleText :: "string option"
  viewsText :: "string option"
  likesLabel :: "string option"
  descriptionText :: "string option"
  channelText :: "string option"
  subscribersText :: "string option"
  tagContents :: "string option list"
  commentTexts :: "string option list"

text \<open>
  The external collaborators of the scraper: the two tools (each throws or returns) and the
  browser session up to the metadata landmark (launch, navigation, \<open>waitForSelector\<close>).
\<close>

record scraper_world =
  download :: "string \<Rightarrow> error + download_output"
  transcribe :: "string \<Rightarrow> error + transcription"
  open_watch_page :: "string \<Rightarrow> error + watch_page"

text \<open>
  \<open>getYouTubeTranscriptViaDownload\<close>: download, transcribe, return the text; any throw of the
  two steps is caught and gives the empty string; \<open>cleanup\<close> runs in the \<open>finally\<close> block
  whenever the download returned, and its own throw is caught there.
\<close>

definition getYouTubeTranscriptViaDownload ::
  "scraper_world \<Rightarrow> string \<Rightarrow> (error + string) \<times> event list" where
  "getYouTubeTranscriptViaDownload w videoUrl =
     (let downloadResult = download w videoUrl;
          body = (case downloadResult of
                    Inl e \<Rightarrow> Inl e
                  | Inr d \<Rightarrow> (case transcribe w (audioPath d) of
                                Inl e \<Rightarrow> Inl e
                              | Inr t \<Rightarrow> Inr (tr_text t)));
          fin = (case downloadResult of
                   Inl e \<Rightarrow> Inr ()
                 | Inr d \<Rightarrow> try_catch (cleanup d) (\<lambda>cleanupError. Inr ()));
          cleaned = (case downloadResult of Inl e \<Rightarrow> [] | Inr d \<Rightarrow> [CleanedUp (audioPath d)])
      in (try_finally (try_catch body (\<lambda>error. Inr [])) fin,
          Attempted DownloadTranscribe # cleaned))"

text \<open>The page as Playwright shows it after navigation, for the transcript panel.\<close>

record panel_page =
  moreActionsVisible :: bool
  transcriptOptionVisible :: bool
  segmentTexts :: "string option list"

record caption_track =
  languageCode :: "string option"
  kind :: "string option"
  baseUrl :: "string option"

record fetch_response =
  resp_ok :: bool
  resp_status :: string
  resp_text :: string
  resp_contentType :: "string option"

text \<open>One element of \<open>transcriptData.events\<close>: the \<open>utf8\<close> fields of its \<open>segs\<close>, when \<open>segs\<close> is an array.\<close>

record caption_event =
  segs :: "string option list option"

text \<open>
  The collaborators of \<open>getTranscriptViaPlaywright\<close>: the browser up to the loaded page with
  its panel (\<open>launch\<close>, \<open>goto\<close>, the visibility probes, the clicks, \<open>$$eval\<close>), the read of
  \<open>ytInitialPlayerResponse\<close>, the URL parser, the in-page \<open>fetch\<close> and \<open>JSON.parse\<close>
  (giving \<open>events\<close> when it is an array).
\<close>

record playwright_world =
  open_panel_page :: "string \<Rightarrow> error + panel_page"
  captionTracks :: "string \<Rightarrow> error + caption_track list option"
  caption_url :: "string \<Rightarrow> error + string"
  fetch_captions :: "string \<Rightarrow> error + fetch_response"
  parse_events :: "string \<Rightarrow> error + caption_event list option"

definition panel_segments :: "panel_page \<Rightarrow> string list" where
  "panel_segments p =
     filter (\<lambda>t. 0 < length t) (List.map_filter (map_option trim) (segmentTexts p))"

definition english :: "caption_track \<Rightarrow> bool" where
  "english t = (case languageCode t of None \<Rightarrow> False | Some l \<Rightarrow> l = ''en'' \<or> prefix ''en'' l)"

definition find_english_track :: "caption_track list \<Rightarrow> caption_track option" where
  "find_english_track tracks =
     (case List.find (\<lambda>t. english t \<and> (kind t = None \<or> kind t = Some [])) tracks of
        Some t \<Rightarrow> Some t
      | None \<Rightarrow> List.find (\<lambda>t. english t \<and> kind t = Some ''asr'') tracks)"

text \<open>\<open>responseText.replace(/^\)\]\}'\n?/, '')\<close>.\<close>

definition strip_xssi :: "string \<Rightarrow> string" where
  "strip_xssi s =
     (if prefix ('')]}'' @ [CHR 0x27, CHR 0x0A]) s then drop 5 s
      else if prefix ('')]}'' @ [CHR 0x27]) s then drop 4 s
      else s)"

definition uiWords :: "string list" where
  "uiWords = [''Subscribe'', ''Premium'', ''Terms'', ''Unsubscribe'', ''Cancel'', ''Sign in'', ''playlist'']"

definition caption_text :: "caption_event list \<Rightarrow> string" where
  "caption_text events =
     (let texts = filter (\<lambda>t. t \<noteq> [] \<and> trim t \<noteq> [] \<and> t \<noteq> [CHR 0x0A])
                    (List.map_filter id
                       (concat (List.map_filter segs events)));
          transcript = trim (collapse_space (join '' '' texts))
      in join '' '' (filter (\<lambda>word. \<not> list_ex (\<lambda>uiWord. sublist uiWord word) uiWords)
                       (split_space transcript)))"

text \<open>
  The caption-track part of \<open>getTranscriptViaPlaywright\<close>, the body of its inner \<open>try\<close>:
  \<open>Inr (Some text)\<close> is the \<open>return cleanTranscript\<close>, \<open>Inr None\<close> falls through to the
  final \<open>return ""\<close>, \<open>Inl\<close> is a throw (which the inner \<open>catch\<close> logs).
\<close>

definition caption_strategy :: "playwright_world \<Rightarrow> string \<Rightarrow> error + string option" where
  "caption_strategy w videoUrl =
     (case captionTracks w videoUrl of
        Inl e \<Rightarrow> Inl e
      | Inr None \<Rightarrow> Inr None
      | Inr (Some tracks) \<Rightarrow>
          (case find_english_track tracks of
             None \<Rightarrow> Inr None
           | Some englishTrack \<Rightarrow>
               (case baseUrl englishTrack of
                  None \<Rightarrow> Inr None
                | Some b \<Rightarrow>
                    if b = [] then Inr None
                    else (case caption_url w b of
                       Inl e \<Rightarrow> Inl e
                     | Inr captionUrl \<Rightarrow>
                         (case fetch_captions w captionUrl of
                            Inl e \<Rightarrow> Inl e
                          | Inr response \<Rightarrow>
                              if \<not> resp_ok response
                              then Inl (Error (''Caption fetch failed: '' @ resp_status response))
                              else if (case resp_contentType response of
                                         None \<Rightarrow> False | Some ct \<Rightarrow> sublist ''text/html'' ct)
                              then Inl (Error ''Got HTML error response instead of JSON captions'')
                              else if resp_text response = [] \<or> length (trim (resp_text response)) = 0
                              then Inl (Error ''Empty response from caption API'')
                              else (case parse_events w (strip_xssi (resp_text response)) of
                                      Inl e \<Rightarrow> Inl e
                                    | Inr None \<Rightarrow> Inr None
                                    | Inr (Some events) \<Rightarrow>
                                        (let cleanTranscript = caption_text events
                                         in if 50 < length cleanTranscript
                                            then Inr (Some cleanTranscript) else Inr None)))))))"

text \<open>
  \<open>getTranscriptViaPlaywright\<close>. A throw while the page and its panel are being opened is
  outside the inner \<open>try\<close> and leaves the function (after \<open>browser.close()\<close>); a throw of the
  caption-track part is caught. (A failing \<open>chromium.launch\<close> throws before the \<open>try\<close>; the
  model closes no browser then.)
\<close>

definition getTranscriptViaPlaywright ::
  "playwright_world \<Rightarrow> string \<Rightarrow> (error + string) \<times> event list" where
  "getTranscriptViaPlaywright w videoUrl =
     (case open_panel_page w videoUrl of
        Inl e \<Rightarrow> (Inl e, [Attempted TranscriptPanel, BrowserClosed])
      | Inr p \<Rightarrow>
          if moreActionsVisible p \<and> transcriptOptionVisible p \<and> 0 < length (panel_segments p)
          then (Inr (join '' '' (panel_segments p)), [Attempted TranscriptPanel, BrowserClosed])
          else (case try_catch (caption_strategy w videoUrl) (\<lambda>playerError. Inr None) of
                  Inr (Some t) \<Rightarrow> Inr t
                | _ \<Rightarrow> Inr [],
                [Attempted TranscriptPanel, Attempted CaptionTrack, BrowserClosed]))"

section \<open>Metadata harvest and assembly (youtubeScraper.ts)\<close>

text \<open>\<open>/(?:youtube\.com\/watch\?v=|youtu\.be\/)([a-zA-Z0-9_-]{11})/\<close> at one start index.\<close>

definition strict_pattern :: "string \<Rightarrow> string option" where
  "strict_pattern s = match_here [''youtube.com/watch?v='', ''youtu.be/''] strict_token s"

text \<open>
  The inline \<open>url.match(...)\<close> of the scraper, \<open>match ? match[1] : null\<close>: written three
  times in the file, with the same pattern.
\<close>

definition coordinatorVideoId :: "string \<Rightarrow> string option" where
  "coordinatorVideoId u = first_match strict_pattern u"

text \<open>\<open>el?.textContent?.trim() || dflt\<close> and \<open>el?.getAttribute(...) || dflt\<close>.\<close>

definition trimmed_or :: "string option \<Rightarrow> string \<Rightarrow> string" where
  "trimmed_or t dflt = (case t of None \<Rightarrow> dflt | Some s \<Rightarrow> if trim s = [] then dflt else trim s)"

definition value_or :: "string option \<Rightarrow> string \<Rightarrow> string" where
  "value_or t dflt = (case t of None \<Rightarrow> dflt | Some s \<Rightarrow> if s = [] then dflt else s)"

text \<open>
  The comment loop: the first \<open>min(length, 50)\<close> elements are looked at; an element's trimmed
  text is kept when it is non-empty and \<open>commentText.length > 10\<close>.
\<close>

definition extract_comments :: "string option list \<Rightarrow> string list" where
  "extract_comments commentElements =
     List.map_filter
       (\<lambda>el. case el of
               None \<Rightarrow> None
             | Some t \<Rightarrow> (let commentText = trim t
                          in if commentText \<noteq> [] \<and> 10 < length commentText
                             then Some commentText else None))
       (take (min (length commentElements) 50) commentElements)"

record EnrichedVideo =
  v_videoId :: string
  v_url :: string
  v_title :: string
  v_views :: string
  v_likes :: string
  v_description :: string
  v_channelName :: string
  v_subscribers :: string
  v_tags :: "string list"
  v_transcript :: string
  v_comments :: "string list"
  v_scrapedAt :: string

text \<open>
  \<open>getYouTubeVideoData\<close>: the identifier by the strict pattern (a throw when it does not
  match), the transcript by \<open>getYouTubeTranscriptViaDownload\<close> and by nothing else, then the
  page. The outer \<open>catch\<close> logs and rethrows.
\<close>

definition getYouTubeVideoData ::
  "scraper_world \<Rightarrow> string \<Rightarrow> string \<Rightarrow> (error + EnrichedVideo) \<times> event list" where
  "getYouTubeVideoData w now videoUrl =
     (case coordinatorVideoId videoUrl of
        None \<Rightarrow> (Inl (Error ''Invalid YouTube URL format''), [])
      | Some vid \<Rightarrow>
          (case getYouTubeTranscriptViaDownload w videoUrl of
             (Inl e, evs) \<Rightarrow> (Inl e, evs)
           | (Inr transcript, evs) \<Rightarrow>
               (case open_watch_page w videoUrl of
                  Inl e \<Rightarrow> (Inl e, evs)
                | Inr page \<Rightarrow>
                    (Inr \<lparr>v_videoId = vid, v_url = videoUrl,
                          v_title = trimmed_or (titleText page) ''Title not found'',
                          v_views = trimmed_or (viewsText page) ''0 views'',
                          v_likes = value_or (likesLabel page) ''Likes not found'',
                          v_description = trimmed_or (descriptionText page) ''Description not found'',
                          v_channelName = trimmed_or (channelText page) ''Channel not found'',
                          v_subscribers = trimmed_or (subscribersText page) ''Subscribers not found'',
                          v_tags = List.map_filter id (tagContents page),
                          v_transcript = transcript,
                          v_comments = take 50 (extract_comments (commentTexts page)),
                          v_scrapedAt = now\<rparr>,
                     evs @ [BrowserClosed]))))"

section \<open>The tracker tool as the coordinator calls it (simpleVideoTracker.ts, \<open>execute\<close>)\<close>

record tracker_tool_output =
  success :: bool
  tool_summary :: check_summary
  message :: "string option"

text \<open>
  \<open>execute\<close> with \<open>action: "check"\<close> and the URLs given, and with \<open>action: "track"\<close> and
  the video data given. A throw of the operation is caught: \<open>success\<close> is false, \<open>message\<close>
  is the error, and the summary carries zeros and no URL lists (empty here: its only reader
  applies \<open>|| []\<close>). The \<open>results\<close> field, which the coordinator does not read, is
  left out.
\<close>

definition failed_output :: "error \<Rightarrow> tracker_tool_output" where
  "failed_output e =
     \<lparr>success = False,
      tool_summary = \<lparr>sum_total = 0, sum_duplicates = 0, sum_new = 0, newUrls = [], duplicateUrls = []\<rparr>,
      message = Some (error_string e)\<rparr>"

definition simpleVideoTrackerTool_check ::
  "string \<Rightarrow> string list \<Rightarrow> tracker_fs \<Rightarrow> tracker_tool_output \<times> tracker_fs" where
  "simpleVideoTrackerTool_check now videoUrls fs =
     (case checkDuplicates now videoUrls fs of
        (Inl e, fs') \<Rightarrow> (failed_output e, fs')
      | (Inr (results, s), fs') \<Rightarrow> (\<lparr>success = True, tool_summary = s, message = None\<rparr>, fs'))"

definition simpleVideoTrackerTool_track ::
  "string \<Rightarrow> videoData \<Rightarrow> tracker_fs \<Rightarrow> tracker_tool_output \<times> tracker_fs" where
  "simpleVideoTrackerTool_track now vd fs =
     (case trackNewVideo now vd fs of
        (Inl e, fs') \<Rightarrow> (failed_output e, fs')
      | (Inr r, fs') \<Rightarrow>
          (\<lparr>success = True,
            tool_summary = \<lparr>sum_total = 1, sum_duplicates = 0, sum_new = 1, newUrls = [], duplicateUrls = []\<rparr>,
            message = None\<rparr>, fs'))"

section \<open>Ingestion coordinator (youtubeScraper.ts, \<open>youTubeScrapeTool.execute\<close>)\<close>

text \<open>
  The storage collaborator as the coordinator reads it: the \<open>video_id\<close> column of the
  \<open>videos\<close> table, and whether a query succeeds or throws.
\<close>

record storage =
  video_ids :: "string list"
  db_available :: bool

text \<open>\<open>db.select({videoId}).from(videos).where(inArray(videos.videoId, ids))\<close>.\<close>

definition select_existing :: "storage \<Rightarrow> string list \<Rightarrow> error + string list" where
  "select_existing st ids =
     (if db_available st then Inr (filter (\<lambda>v. v \<in> set ids) (video_ids st))
      else Inl (Error ''connection refused''))"

text \<open>
  Step 2 of \<open>execute\<close>: from the tracker's new URLs and duplicates, the final list to scrape.
  A throw of the query is caught and the tracker's answer stands.
\<close>

definition reconcile :: "storage \<Rightarrow> string list \<Rightarrow> string list \<Rightarrow> string list" where
  "reconcile st finalVideosToScrape fileTrackerDuplicates =
     (if 0 < length fileTrackerDuplicates then
        (let videoIdsToCheck = List.map_filter coordinatorVideoId fileTrackerDuplicates
         in case select_existing st videoIdsToCheck of
              Inl dbError \<Rightarrow> finalVideosToScrape
            | Inr existingVideoIds \<Rightarrow>
                (let videosToReAdd =
                       filter (\<lambda>u. case coordinatorVideoId u of
                                     None \<Rightarrow> False
                                   | Some vid \<Rightarrow> vid \<noteq> [] \<and> vid \<notin> set existingVideoIds)
                              fileTrackerDuplicates
                 in if 0 < length videosToReAdd then finalVideosToScrape @ videosToReAdd
                    else finalVideosToScrape))
      else finalVideosToScrape)"

text \<open>Steps 1 and 2: the list of URLs the scraping loop will run over, or the throw of step 1.\<close>

definition finalVideosToScrape ::
  "string \<Rightarrow> string list \<Rightarrow> tracker_fs \<Rightarrow> storage \<Rightarrow> (error + string list) \<times> tracker_fs" where
  "finalVideosToScrape now videoUrls fs st =
     (case simpleVideoTrackerTool_check now videoUrls fs of
        (duplicateCheck, fs') \<Rightarrow>
          if \<not> success duplicateCheck
          then (Inl (Error (''Duplicate check failed: '' @ (case message duplicateCheck of None \<Rightarrow> ''undefined'' | Some m \<Rightarrow> m))), fs')
          else (Inr (reconcile st (newUrls (tool_summary duplicateCheck))
                                 (duplicateUrls (tool_summary duplicateCheck))), fs'))"

text \<open>
  Steps 3 and 4, the loop over the final list: a URL whose scrape throws is skipped; a scraped
  video is kept and tracked (the tracker tool does not throw).
\<close>

fun scrape_loop ::
  "scraper_world \<Rightarrow> string \<Rightarrow> string list \<Rightarrow> tracker_fs \<Rightarrow> EnrichedVideo list \<times> tracker_fs" where
  "scrape_loop w now [] fs = ([], fs)"
| "scrape_loop w now (videoUrl # rest) fs =
     (case fst (getYouTubeVideoData w now videoUrl) of
        Inl e \<Rightarrow> scrape_loop w now rest fs
      | Inr videoData \<Rightarrow>
          (let fs' = snd (simpleVideoTrackerTool_track now
                            \<lparr>vd_videoId = v_videoId videoData, vd_url = v_url videoData,
                             vd_title = Some (v_title videoData),
                             vd_channelName = Some (v_channelName videoData)\<rparr> fs)
           in case scrape_loop w now rest fs' of (vs, fs'') \<Rightarrow> (videoData # vs, fs'')))"

definition youTubeScrapeTool_execute ::
  "scraper_world \<Rightarrow> string \<Rightarrow> string list \<Rightarrow> tracker_fs \<Rightarrow> storage
     \<Rightarrow> (error + EnrichedVideo list) \<times> tracker_fs" where
  "youTubeScrapeTool_execute w now videoUrls fs st =
     (case finalVideosToScrape now videoUrls fs st of
        (Inl e, fs') \<Rightarrow> (Inl e, fs')
      | (Inr final, fs') \<Rightarrow>
          if length final = 0 then (Inr [], fs')
          else (case scrape_loop w now final fs' of (vs, fs'') \<Rightarrow> (Inr vs, fs'')))"

section \<open>Persisting an analysis (the data storage tool, \<open>saveAnalysisData\<close>)\<close>

text \<open>
  A field of the loosely typed \<open>analysis\<close> object: a falsy value that is not a string
  (\<open>undefined\<close>, \<open>null\<close>, \<open>false\<close>, \<open>0\<close>); a string; an object or array, carried by its
  \<open>JSON.stringify\<close> text; a truthy number or boolean, carried by its text (on which
  \<open>JSON.stringify\<close> and \<open>String\<close> agree).
\<close>

datatype js_value = JFalsy | JString string | JObject string | JPrimitive string

definition truthy :: "js_value \<Rightarrow> bool" where
  "truthy x = (case x of JFalsy \<Rightarrow> False | JString s \<Rightarrow> s \<noteq> [] | _ \<Rightarrow> True)"

definition MAX_RAW_ANALYSIS_SIZE :: nat where
  "MAX_RAW_ANALYSIS_SIZE = 262144"

definition truncation_marker :: string where
  "truncation_marker = ''...[truncated for database storage]''"

text \<open>The block that computes \<open>safeRawAnalysis\<close>; \<open>None\<close> is \<open>null\<close>.\<close>

definition safeRawAnalysis :: "js_value \<Rightarrow> string option" where
  "safeRawAnalysis rawAnalysis =
     (if truthy rawAnalysis then
        (let rawText = (case rawAnalysis of
                          JString s \<Rightarrow> s | JObject j \<Rightarrow> j | JPrimitive j \<Rightarrow> j | JFalsy \<Rightarrow> [])
         in if MAX_RAW_ANALYSIS_SIZE < length rawText
            then Some (take (MAX_RAW_ANALYSIS_SIZE - 100) rawText @ truncation_marker)
            else Some rawText)
      else None)"

definition safeExtractField :: "js_value \<Rightarrow> string option \<Rightarrow> string option" where
  "safeExtractField field fallback =
     (if \<not> truthy field then fallback
      else (case field of
              JString s \<Rightarrow> if trim s = [] then fallback else Some (trim s)
            | JObject j \<Rightarrow> Some j
            | JPrimitive j \<Rightarrow> Some j
            | JFalsy \<Rightarrow> fallback))"

record analysis =
  audienceProblems :: js_value
  emotionalHooks :: js_value
  mythsToBust :: js_value
  contentPatterns :: js_value
  audienceLanguage :: js_value
  rawAnalysis :: js_value
  analyzedAt :: "string option"
  analysisModel :: "string option"

text \<open>A row of \<open>content_analysis\<close> (without the serial \<open>id\<close>).\<close>

record content_analysis_row =
  ca_videoId :: string
  ca_audienceProblems :: "string option"
  ca_emotionalHooks :: "string option"
  ca_mythsToBust :: "string option"
  ca_contentPatterns :: "string option"
  ca_audienceLanguage :: "string option"
  ca_rawAnalysis :: "string option"
  ca_analyzedAt :: string
  ca_analysisModel :: "string option"

text \<open>
  The argument of \<open>tx.insert(contentAnalysis).values(...)\<close>. \<open>parse_date\<close> is
  \<open>new Date(text)\<close>: the date (as its ISO text), or \<open>None\<close> for an Invalid Date, which
  the driver mapping of the timestamp column (\<open>toISOString\<close>) turns into a throw of the
  insert before anything is written.
\<close>

definition contentAnalysis_values ::
  "(string \<Rightarrow> string option) \<Rightarrow> string \<Rightarrow> string \<Rightarrow> analysis \<Rightarrow> error + content_analysis_row" where
  "contentAnalysis_values parse_date now vid a =
     (case (case analyzedAt a of
              None \<Rightarrow> Some now
            | Some t \<Rightarrow> if t = [] then Some now else parse_date t) of
        None \<Rightarrow> Inl (Error ''Invalid time value'')
      | Some date \<Rightarrow>
          Inr \<lparr>ca_videoId = vid,
               ca_audienceProblems = safeExtractField (audienceProblems a)
                  (Some ''No specific audience problems identified - transcript unavailable''),
               ca_emotionalHooks = safeExtractField (emotionalHooks a)
                  (Some ''No emotional hooks identified - transcript unavailable''),
               ca_mythsToBust = safeExtractField (mythsToBust a)
                  (Some ''No myths identified - transcript unavailable''),
               ca_contentPatterns = safeExtractField (contentPatterns a)
                  (Some ''No content patterns identified - transcript unavailable''),
               ca_audienceLanguage = safeExtractField (audienceLanguage a)
                  (Some ''Unable to analyze audience language - transcript unavailable''),
               ca_rawAnalysis = safeRawAnalysis (rawAnalysis a),
               ca_analyzedAt = date,
               ca_analysisModel = (case analysisModel a of
                                     None \<Rightarrow> None
                                   | Some m \<Rightarrow> if m = [] then None else Some m)\<rparr>)"

text \<open>
  The \<open>content_analysis\<close> table, and whether the database answers a statement or throws.
\<close>

record analysis_store =
  content_analysis :: "content_analysis_row list"
  store_available :: bool

text \<open>
  \<open>insert ... onConflictDoUpdate({target: videoId, set: ...})\<close> on the rows: \<open>video_id\<close>
  is unique, and the \<open>set\<close> clause lists every other column with the value of the insert.
\<close>

definition upsert_content_analysis ::
  "content_analysis_row \<Rightarrow> content_analysis_row list \<Rightarrow> content_analysis_row list" where
  "upsert_content_analysis row table =
     (if list_ex (\<lambda>r. ca_videoId r = ca_videoId row) table
      then map (\<lambda>r. if ca_videoId r = ca_videoId row then row else r) table
      else table @ [row])"

text \<open>
  The statement as the database runs it. It throws when the database does not answer, and
  when a value does not fit its column: \<open>video_id\<close> is \<open>varchar(20)\<close> and
  \<open>analysis_model\<close> is \<open>varchar(100)\<close>; the other columns, \<open>raw_analysis\<close> among them, are
  \<open>text\<close>. A statement that throws writes nothing.
\<close>

definition insert_content_analysis ::
  "content_analysis_row \<Rightarrow> analysis_store \<Rightarrow> (error + unit) \<times> analysis_store" where
  "insert_content_analysis row st =
     (if \<not> store_available st then (Inl (Error ''Connection terminated unexpectedly''), st)
      else if 20 < length (ca_videoId row)
      then (Inl (Error ''value too long for type character varying(20)''), st)
      else if (case ca_analysisModel row of None \<Rightarrow> False | Some m \<Rightarrow> 100 < length m)
      then (Inl (Error ''value too long for type character varying(100)''), st)
      else (Inr (), st\<lparr>content_analysis := upsert_content_analysis row (content_analysis st)\<rparr>))"

text \<open>
  The block \<open>if (video.analysis) { ... }\<close> for one video. A throw in here is logged and
  rethrown by the surrounding \<open>catch\<close>, and leaves the transaction without a stored row.
\<close>

definition save_analysis ::
  "(string \<Rightarrow> string option) \<Rightarrow> string \<Rightarrow> string \<Rightarrow> analysis option \<Rightarrow> analysis_store
     \<Rightarrow> (error + unit) \<times> analysis_store" where
  "save_analysis parse_date now vid a st =
     (case a of
        None \<Rightarrow> (Inr (), st)
      | Some an \<Rightarrow>
          (case contentAnalysis_values parse_date now vid an of
             Inl e \<Rightarrow> (Inl e, st)
           | Inr row \<Rightarrow> insert_content_analysis row st))"

section \<open>Run ledger and trigger wrappers (inngest/index.ts)\<close>

text \<open>
  A row of \<open>workflow_runs\<close> (without the serial \<open>id\<close>); \<open>metadata\<close> is the object handed to
  \<open>JSON.stringify\<close>, as its key--value pairs.
\<close>

record run_row =
  run_id :: string
  status :: string
  started_at :: string
  completed_at :: "string option"
  error_message :: "string option"
  video_count :: nat
  metadata :: "(string \<times> string) list"

text \<open>
  The database: the table, and for the statements to come whether each one throws
  (\<open>True\<close> is an outage; statements beyond the list succeed).
\<close>

record ledger_db =
  workflow_runs :: "run_row list"
  outages :: "bool list"

definition statement_fails :: "ledger_db \<Rightarrow> bool \<times> ledger_db" where
  "statement_fails db =
     (case outages db of [] \<Rightarrow> (False, db) | b # bs \<Rightarrow> (b, db\<lparr>outages := bs\<rparr>))"

definition db_error :: error where
  "db_error = Error ''Connection terminated unexpectedly''"

text \<open>\<open>UPDATE workflow_runs SET ... WHERE run_id = ? RETURNING run_id\<close>.\<close>

definition sql_update ::
  "(run_row \<Rightarrow> run_row) \<Rightarrow> string \<Rightarrow> ledger_db \<Rightarrow> (error + string list) \<times> ledger_db" where
  "sql_update set_clause runId db =
     (case statement_fails db of
        (True, db1) \<Rightarrow> (Inl db_error, db1)
      | (False, db1) \<Rightarrow>
          (Inr (map run_id (filter (\<lambda>r. run_id r = runId) (workflow_runs db1))),
           db1\<lparr>workflow_runs :=
                 map (\<lambda>r. if run_id r = runId then set_clause r else r) (workflow_runs db1)\<rparr>))"

text \<open>\<open>INSERT INTO workflow_runs ...\<close>; \<open>run_id\<close> is unique.\<close>

definition sql_insert :: "run_row \<Rightarrow> ledger_db \<Rightarrow> (error + unit) \<times> ledger_db" where
  "sql_insert row db =
     (case statement_fails db of
        (True, db1) \<Rightarrow> (Inl db_error, db1)
      | (False, db1) \<Rightarrow>
          if list_ex (\<lambda>r. run_id r = run_id row) (workflow_runs db1)
          then (Inl (Error ''duplicate key value violates unique constraint''), db1)
          else (Inr (), db1\<lparr>workflow_runs := workflow_runs db1 @ [row]\<rparr>))"


text \<open>
  The \<open>catch\<close> block of both wrappers: update to \<open>failed\<close> with the message cut to 1000
  characters; when no row came back, insert a failed row; a throw in here is logged. The
  caught error is rethrown by the wrapper afterwards.
\<close>

definition mark_failed ::
  "(string \<times> string) list \<Rightarrow> string \<Rightarrow> string \<Rightarrow> error \<Rightarrow> ledger_db \<Rightarrow> ledger_db" where
  "mark_failed trigger now runId err db =
     (let errorMessage = take 1000 (error_string err)
      in case sql_update (\<lambda>r. r\<lparr>status := ''failed'', error_message := Some errorMessage,
                                 completed_at := Some now\<rparr>) runId db of
           (Inl dbError, db1) \<Rightarrow> db1
         | (Inr updateResult, db1) \<Rightarrow>
             if length updateResult = 0
             then snd (sql_insert
                    \<lparr>run_id = runId, status = ''failed'', started_at = now,
                     completed_at = Some now, error_message = Some errorMessage, video_count = 0,
                     metadata = trigger @
                       [(''source'', ''defensive_insert''),
                        (''note'', ''Record created during failure due to missing initial record'')]\<rparr>
                    db1)
             else db1)"



text \<open>The strategies a run attempted, in order.\<close>

definition attempts :: "event list \<Rightarrow> strategy list" where
  "attempts evs = List.map_filter (\<lambda>ev. case ev of Attempted s \<Rightarrow> Some s | _ \<Rightarrow> None) evs"

text \<open>The rows of a run in the ledger.\<close>

definition rows_of :: "string \<Rightarrow> ledger_db \<Rightarrow> run_row list" where
  "rows_of runId db = filter (\<lambda>r. run_id r = runId) (workflow_runs db)"

section \<open>Sample inputs\<close>

text \<open>
  A tracking file that knows one video; a watch page with four comment elements; a world whose
  download and transcription succeed with the text \<open>hello world\<close>; one whose transcription
  throws and whose \<open>cleanup\<close> throws too; a Playwright world whose page shows no transcript
  panel and no caption tracks.
\<close>

definition known_video :: VideoRecord where
  "known_video =
     \<lparr>videoId = ''dQw4w9WgXcQ'', url = ''https://youtu.be/dQw4w9WgXcQ'', title = None,
      channelName = None, scrapedAt = ''t0'', isAnalyzed = False, analysisFile = None\<rparr>"

definition tracked_fs :: tracker_fs where
  "tracked_fs =
     \<lparr>tracking_file = Some \<lparr>videos = [known_video], lastUpdated = ''t0''\<rparr>, writable = True\<rparr>"

definition sample_page :: watch_page where
  "sample_page =
     \<lparr>titleText = Some '' A title '', viewsText = None, likesLabel = None,
      descriptionText = None, channelText = Some ''A channel'', subscribersText = None,
      tagContents = [],
      commentTexts = [Some ''  great  '', Some ''This video really helped me a lot'', None,
                      Some ''0123456789'']\<rparr>"

definition hello_world :: scraper_world where
  "hello_world =
     \<lparr>download = (\<lambda>u. Inr \<lparr>audioPath = ''/tmp/youtube-audio/audio_1.mp3'',
                              fileSize = ''0.10 MB'', cleanup = Inr ()\<rparr>),
      transcribe = (\<lambda>p. Inr \<lparr>tr_text = ''hello world'', tr_duration = 1, tr_language = ''en''\<rparr>),
      open_watch_page = (\<lambda>u. Inr sample_page)\<rparr>"

definition failing_world :: scraper_world where
  "failing_world =
     \<lparr>download = (\<lambda>u. Inr \<lparr>audioPath = ''/tmp/youtube-audio/audio_2.mp3'',
                              fileSize = ''0.10 MB'', cleanup = Inl (Error ''EBUSY'')\<rparr>),
      transcribe = (\<lambda>p. Inl (Error ''OpenAI API key not found in environment variables'')),
      open_watch_page = (\<lambda>u. Inr sample_page)\<rparr>"

definition silent_playwright :: playwright_world where
  "silent_playwright =
     \<lparr>open_panel_page = (\<lambda>u. Inr \<lparr>moreActionsVisible = False, transcriptOptionVisible = False,
                                     segmentTexts = []\<rparr>),
      captionTracks = (\<lambda>u. Inr None),
      caption_url = (\<lambda>b. Inr b),
      fetch_captions = (\<lambda>u. Inl (Error ''net::ERR_FAILED'')),
      parse_events = (\<lambda>s. Inr None)\<rparr>"

section \<open>Properties of identifier extraction\<close>

lemma first_match_skip:
  assumes "\<forall>c\<in>set pre. \<forall>cs. m (c # cs) = None"
  shows "first_match m (pre @ rest) = first_match m rest"
  using assms by (induction pre) auto

lemma tracker_pattern_1_not_y:
  "c \<noteq> CHR ''y'' \<Longrightarrow> tracker_pattern_1 (c # cs) = None"
  by (simp add: tracker_pattern_1_def after_literal_def)

lemma tracker_pattern_1_skip:
  assumes "CHR ''y'' \<notin> set pre"
  shows "first_match tracker_pattern_1 (pre @ rest) = first_match tracker_pattern_1 rest"
proof (rule first_match_skip, intro ballI allI)
  fix c cs assume "c \<in> set pre"
  with assms have "c \<noteq> CHR ''y''" by auto
  then show "tracker_pattern_1 (c # cs) = None" by (rule tracker_pattern_1_not_y)
qed

lemma tracker_token_run:
  assumes "tok \<noteq> []" "\<forall>c\<in>set tok. \<not> token_stop c" "rst = [] \<or> token_stop (hd rst)"
  shows "tracker_token (tok @ rst) = Some tok"
proof -
  have "takeWhile (\<lambda>c. \<not> token_stop c) rst = []"
    using assms(3) by (cases rst) auto
  then have "takeWhile (\<lambda>c. \<not> token_stop c) (tok @ rst) = tok"
    using assms(2) by (simp add: takeWhile_append2)
  then show ?thesis using assms(1) by (simp add: tracker_token_def)
qed

lemma extractVideoId_long_form:
  assumes "CHR ''y'' \<notin> set pre" "tok \<noteq> []" "\<forall>c\<in>set tok. \<not> token_stop c"
    "rst = [] \<or> token_stop (hd rst)"
  shows "extractVideoId (pre @ ''youtube.com/watch?v='' @ tok @ rst) = Inr tok"
proof -
  have "tracker_pattern_1 (''youtube.com/watch?v='' @ tok @ rst) = Some tok"
    using tracker_token_run[OF assms(2,3,4)] by (simp add: tracker_pattern_1_def after_literal_def)
  then have "first_match tracker_pattern_1 (''youtube.com/watch?v='' @ tok @ rst) = Some tok"
    by simp
  then have "first_match tracker_pattern_1 (pre @ ''youtube.com/watch?v='' @ tok @ rst) = Some tok"
    by (simp only: tracker_pattern_1_skip[OF assms(1)])
  then show ?thesis by (simp add: extractVideoId_def)
qed

lemma extractVideoId_short_form:
  assumes "CHR ''y'' \<notin> set pre" "tok \<noteq> []" "\<forall>c\<in>set tok. \<not> token_stop c"
    "rst = [] \<or> token_stop (hd rst)"
  shows "extractVideoId (pre @ ''youtu.be/'' @ tok @ rst) = Inr tok"
proof -
  have "tracker_pattern_1 (''youtu.be/'' @ tok @ rst) = Some tok"
    using tracker_token_run[OF assms(2,3,4)] by (simp add: tracker_pattern_1_def after_literal_def)
  then have "first_match tracker_pattern_1 (''youtu.be/'' @ tok @ rst) = Some tok"
    by simp
  then have "first_match tracker_pattern_1 (pre @ ''youtu.be/'' @ tok @ rst) = Some tok"
    by (simp only: tracker_pattern_1_skip[OF assms(1)])
  then show ?thesis by (simp add: extractVideoId_def)
qed

text \<open>
  Claim C6. A long-form URL \<open>...youtube.com/watch?v=<id>\<close> and a short-form URL
  \<open>...youtu.be/<id>\<close> of the same video give the same identifier, namely \<open><id>\<close>.
  The identifier is any non-empty token free of \<open>&\<close>, newline, \<open>?\<close> and \<open>#\<close> (the
  eleven-character identifiers are such tokens); what precedes the host (scheme, \<open>www.\<close>,
  \<open>m.\<close>) contains no \<open>y\<close>, so that no pattern starts there; what follows the identifier is
  nothing, or starts with one of the four delimiters (\<open>&t=10s\<close>, \<open>?si=...\<close>, \<open>#t=5\<close>).
\<close>

theorem extractVideoId_long_short_agree:
  assumes "CHR ''y'' \<notin> set pre1" "CHR ''y'' \<notin> set pre2"
    and "tok \<noteq> []" "\<forall>c\<in>set tok. \<not> token_stop c"
    and "rst1 = [] \<or> token_stop (hd rst1)" "rst2 = [] \<or> token_stop (hd rst2)"
  shows "extractVideoId (pre1 @ ''youtube.com/watch?v='' @ tok @ rst1) = Inr tok \<and>
         extractVideoId (pre2 @ ''youtu.be/'' @ tok @ rst2) = Inr tok"
  using extractVideoId_long_form[OF assms(1,3,4,5)] extractVideoId_short_form[OF assms(2,3,4,6)]
  by simp

theorem extractVideoId_long_short_agree_witness:
  "extractVideoId ''https://www.youtube.com/watch?v=dQw4w9WgXcQ&t=10s'' = Inr ''dQw4w9WgXcQ'' \<and>
   extractVideoId ''https://youtu.be/dQw4w9WgXcQ'' = Inr ''dQw4w9WgXcQ''"
  using extractVideoId_long_short_agree
          [of "''https://www.''" "''https://''" "''dQw4w9WgXcQ''" "''&t=10s''" "[]"]
  by (simp add: token_stop_def)

section \<open>Properties of the duplicate tracker\<close>

lemma findIndex_Some:
  "findIndex P xs = Some i \<Longrightarrow> i < length xs \<and> P (xs ! i)"
proof (induction xs arbitrary: i)
  case Nil
  then show ?case by simp
next
  case (Cons x xs)
  then show ?case by (cases "P x") (auto split: if_splits)
qed

lemma findIndex_None: "findIndex P xs = None \<Longrightarrow> \<forall>x\<in>set xs. \<not> P x"
  by (induction xs) (auto split: if_splits)

lemma trackNewVideo_upsert:
  "trackNewVideo now vd fs =
     (case ensureTrackingFile now fs of
        (Inl e, fs1) \<Rightarrow> (Inl e, fs1)
      | (Inr d, fs1) \<Rightarrow>
          (case saveTrackingData now (d\<lparr>videos := upsert now vd (videos d)\<rparr>) fs1 of
             (Inl e, fs2) \<Rightarrow> (Inl e, fs2)
           | (Inr _, fs2) \<Rightarrow>
               (Inr \<lparr>videoId = vd_videoId vd, url = vd_url vd, title = vd_title vd,
                     channelName = vd_channelName vd, scrapedAt = now,
                     isAnalyzed = False, analysisFile = None\<rparr>, fs2)))"
  by (simp add: trackNewVideo_def upsert_def Let_def split: option.splits prod.splits sum.splits)

lemma ensureTrackingFile_videos:
  "ensureTrackingFile now fs = (Inr d, fs1) \<Longrightarrow> videos d = stored_videos fs"
  by (auto simp: ensureTrackingFile_def writeFile_def stored_videos_def Let_def
      split: option.splits if_splits)

lemma saveTrackingData_videos:
  "saveTrackingData now d fs1 = (Inr u, fs2) \<Longrightarrow>
     stored_videos fs2 = videos d \<and> tracking_file fs2 \<noteq> None"
  by (auto simp: saveTrackingData_def writeFile_def stored_videos_def split: if_splits)

text \<open>A successful \<open>track\<close> leaves a tracking file whose records are the upserted ones.\<close>

lemma trackNewVideo_success:
  assumes "trackNewVideo now vd fs = (Inr r, fs')"
  shows "stored_videos fs' = upsert now vd (stored_videos fs) \<and> tracking_file fs' \<noteq> None"
proof -
  obtain res1 fs1 where e: "ensureTrackingFile now fs = (res1, fs1)"
    by (cases "ensureTrackingFile now fs")
  with assms obtain d where d: "res1 = Inr d"
    by (cases res1) (auto simp: trackNewVideo_upsert)
  let ?d = "d\<lparr>videos := upsert now vd (videos d)\<rparr>"
  obtain res2 fs2 where s: "saveTrackingData now ?d fs1 = (res2, fs2)"
    by (cases "saveTrackingData now ?d fs1")
  with assms e d obtain u where u: "res2 = Inr u" "fs2 = fs'"
    by (cases res2) (auto simp: trackNewVideo_upsert)
  from ensureTrackingFile_videos e d have "videos d = stored_videos fs" by blast
  moreover from saveTrackingData_videos s u
  have "stored_videos fs' = videos ?d \<and> tracking_file fs' \<noteq> None" by blast
  ultimately show ?thesis by simp
qed

text \<open>A \<open>track\<close> that throws has written nothing.\<close>

lemma trackNewVideo_failure:
  assumes "trackNewVideo now vd fs = (Inl e, fs')"
  shows "fs' = fs"
  using assms
  by (auto simp: trackNewVideo_def ensureTrackingFile_def saveTrackingData_def writeFile_def
      Let_def split: option.splits if_splits prod.splits sum.splits)

text \<open>
  Upsert by identifier: the identifiers in the index stay as they are when the identifier is
  already there (the record is replaced in place), and the new identifier is appended otherwise.
\<close>

lemma upsert_ids:
  "map videoId (upsert now vd xs) =
     (if vd_videoId vd \<in> videoId ` set xs then map videoId xs
      else map videoId xs @ [vd_videoId vd])"
proof (cases "findIndex (\<lambda>v. videoId v = vd_videoId vd) xs")
  case None
  from findIndex_None[OF None] have "vd_videoId vd \<notin> videoId ` set xs" by auto
  then show ?thesis using None by (simp add: upsert_def)
next
  case (Some i)
  from findIndex_Some[OF Some] have i: "i < length xs" "videoId (xs ! i) = vd_videoId vd"
    by simp_all
  then have mem: "vd_videoId vd \<in> videoId ` set xs"
    by (metis image_eqI nth_mem)
  have "map videoId (upsert now vd xs) = (map videoId xs)[i := vd_videoId vd]"
    using Some by (simp add: upsert_def map_update)
  also have "\<dots> = map videoId xs"
    using i by (metis list_update_id nth_map)
  finally show ?thesis using mem by simp
qed

lemma upsert_member: "vd_videoId vd \<in> videoId ` set (upsert now vd xs)"
proof -
  have "vd_videoId vd \<in> set (map videoId (upsert now vd xs))"
    by (simp only: upsert_ids) simp
  then show ?thesis by simp
qed

lemma upsert_distinct:
  assumes "distinct (map videoId xs)"
  shows "distinct (map videoId (upsert now vd xs))"
  using assms by (simp only: upsert_ids) auto

lemma index_unique_stored: "index_unique fs \<longleftrightarrow> distinct (map videoId (stored_videos fs))"
  by (simp add: index_unique_def stored_videos_def split: option.splits)

lemma trackNewVideo_unique:
  "index_unique fs \<Longrightarrow> index_unique (snd (trackNewVideo now vd fs))"
proof (cases "trackNewVideo now vd fs")
  case (Pair res fs')
  assume u: "index_unique fs"
  show ?thesis
  proof (cases res)
    case (Inl e)
    with Pair trackNewVideo_failure have "fs' = fs" by blast
    with u Pair show ?thesis by simp
  next
    case (Inr r)
    with Pair have "trackNewVideo now vd fs = (Inr r, fs')" by simp
    from trackNewVideo_success[OF this]
    have "stored_videos fs' = upsert now vd (stored_videos fs)" ..
    then show ?thesis using Pair u by (simp add: index_unique_stored upsert_distinct)
  qed
qed

lemma find_member:
  "vid \<in> videoId ` set xs \<Longrightarrow> \<exists>ex. List.find (\<lambda>v. videoId v = vid) xs = Some ex"
  by (cases "List.find (\<lambda>v. videoId v = vid) xs") (auto simp: find_None_iff)

text \<open>
  Claim C7. After a \<open>track\<close> call that succeeded, for an entry whose recorded identifier is
  the one \<open>extractVideoId\<close> reads off its URL, a \<open>check\<close> of that URL succeeds and reports the
  URL as a duplicate (and not as new), at whatever later time it runs.
\<close>

theorem track_then_check_duplicate:
  assumes "trackNewVideo now vd fs = (Inr r, fs')"
    and "extractVideoId (vd_url vd) = Inr (vd_videoId vd)"
  shows "\<exists>results s. checkDuplicates later [vd_url vd] fs' = (Inr (results, s), fs') \<and>
           duplicateUrls s = [vd_url vd] \<and> newUrls s = []"
proof -
  from trackNewVideo_success[OF assms(1)] obtain d' where
    d': "tracking_file fs' = Some d'" "videos d' = upsert now vd (stored_videos fs)"
    by (auto simp: stored_videos_def)
  have ens: "ensureTrackingFile later fs' = (Inr d', fs')"
    using d' by (simp add: ensureTrackingFile_def)
  from find_member[OF upsert_member] d' obtain ex where
    "List.find (\<lambda>v. videoId v = vd_videoId vd) (videos d') = Some ex" by metis
  then have "res_exists (check_one d' (vd_url vd))"
    "res_url (check_one d' (vd_url vd)) = vd_url vd"
    using assms(2) by (simp_all add: check_one_def)
  then show ?thesis using ens by (simp add: checkDuplicates_def Let_def)
qed

theorem track_then_check_duplicate_witness:
  "trackNewVideo ''t1''
     \<lparr>vd_videoId = ''dQw4w9WgXcQ'', vd_url = ''https://youtu.be/dQw4w9WgXcQ'',
      vd_title = Some ''T'', vd_channelName = None\<rparr>
     \<lparr>tracking_file = None, writable = True\<rparr>
   = (Inr \<lparr>videoId = ''dQw4w9WgXcQ'', url = ''https://youtu.be/dQw4w9WgXcQ'', title = Some ''T'',
           channelName = None, scrapedAt = ''t1'', isAnalyzed = False, analysisFile = None\<rparr>,
      \<lparr>tracking_file = Some \<lparr>videos =
          [\<lparr>videoId = ''dQw4w9WgXcQ'', url = ''https://youtu.be/dQw4w9WgXcQ'', title = Some ''T'',
           channelName = None, scrapedAt = ''t1'', isAnalyzed = False, analysisFile = None\<rparr>],
          lastUpdated = ''t1''\<rparr>, writable = True\<rparr>) \<and>
   extractVideoId ''https://youtu.be/dQw4w9WgXcQ'' = Inr ''dQw4w9WgXcQ'' \<and>
   (\<exists>results s. checkDuplicates ''t2'' [''https://youtu.be/dQw4w9WgXcQ'']
       \<lparr>tracking_file = Some \<lparr>videos =
          [\<lparr>videoId = ''dQw4w9WgXcQ'', url = ''https://youtu.be/dQw4w9WgXcQ'', title = Some ''T'',
           channelName = None, scrapedAt = ''t1'', isAnalyzed = False, analysisFile = None\<rparr>],
          lastUpdated = ''t1''\<rparr>, writable = True\<rparr> =
       (Inr (results, s), \<lparr>tracking_file = Some \<lparr>videos =
          [\<lparr>videoId = ''dQw4w9WgXcQ'', url = ''https://youtu.be/dQw4w9WgXcQ'', title = Some ''T'',
           channelName = None, scrapedAt = ''t1'', isAnalyzed = False, analysisFile = None\<rparr>],
          lastUpdated = ''t1''\<rparr>, writable = True\<rparr>) \<and>
       duplicateUrls s = [''https://youtu.be/dQw4w9WgXcQ''] \<and> newUrls s = [])"
proof -
  have t: "trackNewVideo ''t1''
     \<lparr>vd_videoId = ''dQw4w9WgXcQ'', vd_url = ''https://youtu.be/dQw4w9WgXcQ'',
      vd_title = Some ''T'', vd_channelName = None\<rparr>
     \<lparr>tracking_file = None, writable = True\<rparr>
   = (Inr \<lparr>videoId = ''dQw4w9WgXcQ'', url = ''https://youtu.be/dQw4w9WgXcQ'', title = Some ''T'',
           channelName = None, scrapedAt = ''t1'', isAnalyzed = False, analysisFile = None\<rparr>,
      \<lparr>tracking_file = Some \<lparr>videos =
          [\<lparr>videoId = ''dQw4w9WgXcQ'', url = ''https://youtu.be/dQw4w9WgXcQ'', title = Some ''T'',
           channelName = None, scrapedAt = ''t1'', isAnalyzed = False, analysisFile = None\<rparr>],
          lastUpdated = ''t1''\<rparr>, writable = True\<rparr>)"
    by (simp add: trackNewVideo_def ensureTrackingFile_def saveTrackingData_def writeFile_def Let_def)
  have e: "extractVideoId ''https://youtu.be/dQw4w9WgXcQ'' = Inr ''dQw4w9WgXcQ''"
    by (simp add: extractVideoId_def tracker_pattern_1_def after_literal_def tracker_token_def token_stop_def)
  from track_then_check_duplicate[OF t, of "''t2''"] e t show ?thesis by simp
qed

lemma findIndex_present:
  "x \<in> set xs \<Longrightarrow> P x \<Longrightarrow> \<exists>i. findIndex P xs = Some i"
  by (cases "findIndex P xs") (auto dest: findIndex_None)

lemma findIndex_first: "findIndex P xs = Some i \<Longrightarrow> j < i \<Longrightarrow> \<not> P (xs ! j)"
proof (induction xs arbitrary: i j)
  case Nil
  then show ?case by simp
next
  case (Cons x xs)
  show ?case
  proof (cases "P x")
    case True
    with Cons.prems show ?thesis by simp
  next
    case False
    with Cons.prems obtain i' where i': "findIndex P xs = Some i'" "i = Suc i'"
      by (auto split: if_splits)
    show ?thesis
    proof (cases j)
      case 0
      with False show ?thesis by simp
    next
      case (Suc j')
      with Cons.prems(2) i' have "j' < i'" by simp
      from Cons.IH[OF i'(1) this] Suc show ?thesis by simp
    qed
  qed
qed

lemma upsert_present:
  assumes "vd_videoId vd \<in> videoId ` set xs"
  shows "\<exists>i. i < length xs \<and> videoId (xs ! i) = vd_videoId vd \<and>
           (\<forall>j. j < i \<longrightarrow> videoId (xs ! j) \<noteq> vd_videoId vd) \<and>
           upsert now vd xs =
             xs[i := \<lparr>videoId = vd_videoId vd, url = vd_url vd, title = vd_title vd,
                      channelName = vd_channelName vd, scrapedAt = now,
                      isAnalyzed = False, analysisFile = analysisFile (xs ! i)\<rparr>]"
proof -
  from assms obtain x where "x \<in> set xs" "videoId x = vd_videoId vd" by auto
  from findIndex_present[of x xs "\<lambda>v. videoId v = vd_videoId vd", OF this]
  obtain i where i: "findIndex (\<lambda>v. videoId v = vd_videoId vd) xs = Some i" by blast
  from findIndex_first[OF i]
  have "\<forall>j. j < i \<longrightarrow> videoId (xs ! j) \<noteq> vd_videoId vd" by blast
  with findIndex_Some[OF i] i show ?thesis by (auto simp: upsert_def)
qed

lemma upsert_absent:
  assumes "vd_videoId vd \<notin> videoId ` set xs"
  shows "upsert now vd xs =
           xs @ [\<lparr>videoId = vd_videoId vd, url = vd_url vd, title = vd_title vd,
                  channelName = vd_channelName vd, scrapedAt = now,
                  isAnalyzed = False, analysisFile = None\<rparr>]"
proof (cases "findIndex (\<lambda>v. videoId v = vd_videoId vd) xs")
  case None
  then show ?thesis by (simp add: upsert_def)
next
  case (Some i)
  from findIndex_Some[OF Some] assms show ?thesis by (metis image_eqI nth_mem)
qed

lemma trackNewVideo_returns:
  "trackNewVideo now vd fs = (Inr r, fs') \<Longrightarrow>
     r = \<lparr>videoId = vd_videoId vd, url = vd_url vd, title = vd_title vd,
          channelName = vd_channelName vd, scrapedAt = now,
          isAnalyzed = False, analysisFile = None\<rparr>"
  by (auto simp: trackNewVideo_upsert split: prod.splits sum.splits)

lemma trackNewVideo_writable:
  "writable fs \<Longrightarrow> \<exists>r fs'. trackNewVideo now vd fs = (Inr r, fs') \<and> writable fs'"
  by (auto simp: trackNewVideo_def ensureTrackingFile_def saveTrackingData_def writeFile_def
      Let_def split: option.splits)

lemma filter_unique:
  "distinct (map f xs) \<Longrightarrow> x \<in> set xs \<Longrightarrow> filter (\<lambda>v. f v = f x) xs = [x]"
proof (induction xs)
  case Nil
  then show ?case by simp
next
  case (Cons a xs)
  show ?case
  proof (cases "a = x")
    case True
    with Cons.prems have "f x \<notin> f ` set xs" by simp
    then have "\<forall>v\<in>set xs. f v \<noteq> f x" by (metis image_eqI)
    then have "filter (\<lambda>v. f v = f x) xs = []" by (simp add: filter_empty_conv)
    with True show ?thesis by simp
  next
    case False
    with Cons.prems have x: "x \<in> set xs" and "f a \<noteq> f x" by auto
    with Cons.IH Cons.prems show ?thesis by simp
  qed
qed

lemma upsert_holds_new:
  "\<exists>af. \<lparr>videoId = vd_videoId vd, url = vd_url vd, title = vd_title vd,
          channelName = vd_channelName vd, scrapedAt = now,
          isAnalyzed = False, analysisFile = af\<rparr> \<in> set (upsert now vd xs)"
proof (cases "vd_videoId vd \<in> videoId ` set xs")
  case True
  from upsert_present[OF True, of now] obtain i where
    i: "i < length xs" and
    u: "upsert now vd xs =
             xs[i := \<lparr>videoId = vd_videoId vd, url = vd_url vd, title = vd_title vd,
                      channelName = vd_channelName vd, scrapedAt = now,
                      isAnalyzed = False, analysisFile = analysisFile (xs ! i)\<rparr>]" by blast
  from i show ?thesis unfolding u by (metis set_update_memI)
next
  case False
  from upsert_absent[OF False, of now] show ?thesis by (metis in_set_conv_decomp)
qed

lemma upsert_single:
  assumes "distinct (map videoId xs)"
  shows "\<exists>af. filter (\<lambda>v. videoId v = vd_videoId vd) (upsert now vd xs) =
           [\<lparr>videoId = vd_videoId vd, url = vd_url vd, title = vd_title vd,
             channelName = vd_channelName vd, scrapedAt = now,
             isAnalyzed = False, analysisFile = af\<rparr>]"
proof -
  from upsert_holds_new[of vd now xs] obtain af where
    m: "\<lparr>videoId = vd_videoId vd, url = vd_url vd, title = vd_title vd,
          channelName = vd_channelName vd, scrapedAt = now,
          isAnalyzed = False, analysisFile = af\<rparr> \<in> set (upsert now vd xs)" by blast
  from filter_unique[OF upsert_distinct[OF assms, of now vd] m] show ?thesis by auto
qed

lemma track_all_ids:
  "writable fs \<Longrightarrow>
     set (map videoId (stored_videos (track_all calls fs))) =
       videoId ` set (stored_videos fs) \<union> (\<lambda>c. vd_videoId (snd c)) ` set calls"
proof (induction calls arbitrary: fs)
  case Nil
  then show ?case by simp
next
  case (Cons c calls)
  obtain now vd where c: "c = (now, vd)" by (cases c)
  from trackNewVideo_writable[OF Cons.prems, of now vd] obtain r fs' where
    t: "trackNewVideo now vd fs = (Inr r, fs')" and w: "writable fs'" by blast
  from trackNewVideo_success[OF t] have s: "stored_videos fs' = upsert now vd (stored_videos fs)" ..
  have "set (map videoId (stored_videos fs')) = videoId ` set (stored_videos fs) \<union> {vd_videoId vd}"
    unfolding s by (simp only: upsert_ids) auto
  with Cons.IH[OF w] t c show ?case by auto
qed

text \<open>
  Claim C8. Every \<open>track\<close> call upserts by identifier. On a writable file system the call
  succeeds. A call that succeeds returns the new record and leaves a tracking file in which,
  when the identifier was already in the index, the record at the first index holding that
  identifier is replaced in place by the new record (keeping the old \<open>analysisFile\<close>) and,
  when it was not, the new record is appended; on an index with at most one record per
  identifier, exactly one record then carries the identifier, the new one. A call that throws
  leaves the file system as it was. So after any sequence of \<open>track\<close> calls an index that
  had at most one record per identifier still has, and on a writable file system it holds
  exactly the identifiers it held before and those of the calls.
\<close>

theorem track_upserts_by_identifier:
  "(writable fs \<longrightarrow> (\<exists>r fs'. trackNewVideo now vd fs = (Inr r, fs'))) \<and>
   (trackNewVideo now vd fs = (Inr r, fs') \<longrightarrow>
      r = \<lparr>videoId = vd_videoId vd, url = vd_url vd, title = vd_title vd,
           channelName = vd_channelName vd, scrapedAt = now,
           isAnalyzed = False, analysisFile = None\<rparr> \<and>
      tracking_file fs' \<noteq> None \<and>
      (vd_videoId vd \<in> videoId ` set (stored_videos fs) \<longrightarrow>
         (\<exists>i. i < length (stored_videos fs) \<and> videoId (stored_videos fs ! i) = vd_videoId vd \<and>
              (\<forall>j. j < i \<longrightarrow> videoId (stored_videos fs ! j) \<noteq> vd_videoId vd) \<and>
              stored_videos fs' =
                (stored_videos fs)[i := r\<lparr>analysisFile := analysisFile (stored_videos fs ! i)\<rparr>])) \<and>
      (vd_videoId vd \<notin> videoId ` set (stored_videos fs) \<longrightarrow>
         stored_videos fs' = stored_videos fs @ [r]) \<and>
      (index_unique fs \<longrightarrow>
         (\<exists>af. filter (\<lambda>v. videoId v = vd_videoId vd) (stored_videos fs') =
                  [r\<lparr>analysisFile := af\<rparr>]))) \<and>
   (trackNewVideo now vd fs = (Inl e, fs'') \<longrightarrow> fs'' = fs) \<and>
   (index_unique fs \<longrightarrow> index_unique (track_all calls fs)) \<and>
   (writable fs \<longrightarrow>
      set (map videoId (stored_videos (track_all calls fs))) =
        videoId ` set (stored_videos fs) \<union> (\<lambda>c. vd_videoId (snd c)) ` set calls)"
proof (intro conjI impI)
  assume "writable fs"
  from trackNewVideo_writable[OF this] show "\<exists>r fs'. trackNewVideo now vd fs = (Inr r, fs')"
    by blast
next
  assume t: "trackNewVideo now vd fs = (Inr r, fs')"
  from trackNewVideo_returns[OF t]
  show "r = \<lparr>videoId = vd_videoId vd, url = vd_url vd, title = vd_title vd,
           channelName = vd_channelName vd, scrapedAt = now,
           isAnalyzed = False, analysisFile = None\<rparr>" .
next
  assume t: "trackNewVideo now vd fs = (Inr r, fs')"
  from trackNewVideo_success[OF t] show "tracking_file fs' \<noteq> None" ..
next
  assume t: "trackNewVideo now vd fs = (Inr r, fs')"
    and m: "vd_videoId vd \<in> videoId ` set (stored_videos fs)"
  from trackNewVideo_success[OF t]
  have s: "stored_videos fs' = upsert now vd (stored_videos fs)" ..
  from upsert_present[OF m, of now] trackNewVideo_returns[OF t] s
  show "\<exists>i. i < length (stored_videos fs) \<and> videoId (stored_videos fs ! i) = vd_videoId vd \<and>
              (\<forall>j. j < i \<longrightarrow> videoId (stored_videos fs ! j) \<noteq> vd_videoId vd) \<and>
              stored_videos fs' =
                (stored_videos fs)[i := r\<lparr>analysisFile := analysisFile (stored_videos fs ! i)\<rparr>]"
    by auto
next
  assume t: "trackNewVideo now vd fs = (Inr r, fs')"
    and m: "vd_videoId vd \<notin> videoId ` set (stored_videos fs)"
  from trackNewVideo_success[OF t]
  have s: "stored_videos fs' = upsert now vd (stored_videos fs)" ..
  from upsert_absent[OF m, of now] trackNewVideo_returns[OF t] s
  show "stored_videos fs' = stored_videos fs @ [r]" by simp
next
  assume t: "trackNewVideo now vd fs = (Inr r, fs')" and u: "index_unique fs"
  from trackNewVideo_success[OF t]
  have s: "stored_videos fs' = upsert now vd (stored_videos fs)" ..
  from u have "distinct (map videoId (stored_videos fs))" by (simp add: index_unique_stored)
  from upsert_single[OF this, of vd now] trackNewVideo_returns[OF t] s
  show "\<exists>af. filter (\<lambda>v. videoId v = vd_videoId vd) (stored_videos fs') = [r\<lparr>analysisFile := af\<rparr>]"
    by auto
next
  assume "trackNewVideo now vd fs = (Inl e, fs'')"
  then show "fs'' = fs" by (rule trackNewVideo_failure)
next
  assume "index_unique fs"
  then show "index_unique (track_all calls fs)"
  proof (induction calls arbitrary: fs)
    case Nil
    then show ?case by simp
  next
    case (Cons c calls)
    obtain now vd where c: "c = (now, vd)" by (cases c)
    from Cons.prems have "index_unique (snd (trackNewVideo now vd fs))"
      by (rule trackNewVideo_unique)
    then show ?case using Cons.IH c by simp
  qed
next
  assume "writable fs"
  then show "set (map videoId (stored_videos (track_all calls fs))) =
        videoId ` set (stored_videos fs) \<union> (\<lambda>c. vd_videoId (snd c)) ` set calls"
    by (rule track_all_ids)
qed

theorem track_upserts_by_identifier_witness:
  "writable \<lparr>tracking_file = Some \<lparr>videos =
       [\<lparr>videoId = ''dQw4w9WgXcQ'', url = ''https://youtu.be/dQw4w9WgXcQ'', title = Some ''Old'',
         channelName = None, scrapedAt = ''t0'', isAnalyzed = True,
         analysisFile = Some ''data/analysis.json''\<rparr>], lastUpdated = ''t0''\<rparr>, writable = True\<rparr> \<and>
   index_unique \<lparr>tracking_file = Some \<lparr>videos =
       [\<lparr>videoId = ''dQw4w9WgXcQ'', url = ''https://youtu.be/dQw4w9WgXcQ'', title = Some ''Old'',
         channelName = None, scrapedAt = ''t0'', isAnalyzed = True,
         analysisFile = Some ''data/analysis.json''\<rparr>], lastUpdated = ''t0''\<rparr>, writable = True\<rparr> \<and>
   trackNewVideo ''t1''
     \<lparr>vd_videoId = ''dQw4w9WgXcQ'', vd_url = ''https://www.youtube.com/watch?v=dQw4w9WgXcQ'',
      vd_title = Some ''New'', vd_channelName = None\<rparr>
     \<lparr>tracking_file = Some \<lparr>videos =
       [\<lparr>videoId = ''dQw4w9WgXcQ'', url = ''https://youtu.be/dQw4w9WgXcQ'', title = Some ''Old'',
         channelName = None, scrapedAt = ''t0'', isAnalyzed = True,
         analysisFile = Some ''data/analysis.json''\<rparr>], lastUpdated = ''t0''\<rparr>, writable = True\<rparr>
   = (Inr \<lparr>videoId = ''dQw4w9WgXcQ'', url = ''https://www.youtube.com/watch?v=dQw4w9WgXcQ'',
           title = Some ''New'', channelName = None, scrapedAt = ''t1'', isAnalyzed = False,
           analysisFile = None\<rparr>,
      \<lparr>tracking_file = Some \<lparr>videos =
         [\<lparr>videoId = ''dQw4w9WgXcQ'', url = ''https://www.youtube.com/watch?v=dQw4w9WgXcQ'',
           title = Some ''New'', channelName = None, scrapedAt = ''t1'', isAnalyzed = False,
           analysisFile = Some ''data/analysis.json''\<rparr>], lastUpdated = ''t1''\<rparr>,
       writable = True\<rparr>) \<and>
   filter (\<lambda>v. videoId v = ''dQw4w9WgXcQ'')
     (stored_videos \<lparr>tracking_file = Some \<lparr>videos =
         [\<lparr>videoId = ''dQw4w9WgXcQ'', url = ''https://www.youtube.com/watch?v=dQw4w9WgXcQ'',
           title = Some ''New'', channelName = None, scrapedAt = ''t1'', isAnalyzed = False,
           analysisFile = Some ''data/analysis.json''\<rparr>], lastUpdated = ''t1''\<rparr>,
       writable = True\<rparr>) =
     [\<lparr>videoId = ''dQw4w9WgXcQ'', url = ''https://www.youtube.com/watch?v=dQw4w9WgXcQ'',
       title = Some ''New'', channelName = None, scrapedAt = ''t1'', isAnalyzed = False,
       analysisFile = Some ''data/analysis.json''\<rparr>] \<and>
   track_all
     [(''t1'', \<lparr>vd_videoId = ''dQw4w9WgXcQ'', vd_url = ''https://www.youtube.com/watch?v=dQw4w9WgXcQ'',
               vd_title = Some ''New'', vd_channelName = None\<rparr>),
      (''t2'', \<lparr>vd_videoId = ''aaaaaaaaaaa'', vd_url = ''https://youtu.be/aaaaaaaaaaa'',
               vd_title = None, vd_channelName = None\<rparr>)]
     \<lparr>tracking_file = Some \<lparr>videos =
       [\<lparr>videoId = ''dQw4w9WgXcQ'', url = ''https://youtu.be/dQw4w9WgXcQ'', title = Some ''Old'',
         channelName = None, scrapedAt = ''t0'', isAnalyzed = True,
         analysisFile = Some ''data/analysis.json''\<rparr>], lastUpdated = ''t0''\<rparr>, writable = True\<rparr>
   = \<lparr>tracking_file = Some \<lparr>videos =
         [\<lparr>videoId = ''dQw4w9WgXcQ'', url = ''https://www.youtube.com/watch?v=dQw4w9WgXcQ'',
           title = Some ''New'', channelName = None, scrapedAt = ''t1'', isAnalyzed = False,
           analysisFile = Some ''data/analysis.json''\<rparr>,
          \<lparr>videoId = ''aaaaaaaaaaa'', url = ''https://youtu.be/aaaaaaaaaaa'',
           title = None, channelName = None, scrapedAt = ''t2'', isAnalyzed = False,
           analysisFile = None\<rparr>], lastUpdated = ''t2''\<rparr>, writable = True\<rparr> \<and>
   index_unique (track_all
     [(''t1'', \<lparr>vd_videoId = ''dQw4w9WgXcQ'', vd_url = ''https://www.youtube.com/watch?v=dQw4w9WgXcQ'',
               vd_title = Some ''New'', vd_channelName = None\<rparr>),
      (''t2'', \<lparr>vd_videoId = ''aaaaaaaaaaa'', vd_url = ''https://youtu.be/aaaaaaaaaaa'',
               vd_title = None, vd_channelName = None\<rparr>)]
     \<lparr>tracking_file = Some \<lparr>videos =
       [\<lparr>videoId = ''dQw4w9WgXcQ'', url = ''https://youtu.be/dQw4w9WgXcQ'', title = Some ''Old'',
         channelName = None, scrapedAt = ''t0'', isAnalyzed = True,
         analysisFile = Some ''data/analysis.json''\<rparr>], lastUpdated = ''t0''\<rparr>, writable = True\<rparr>)"
proof -
  let ?fs = "\<lparr>tracking_file = Some \<lparr>videos =
       [\<lparr>videoId = ''dQw4w9WgXcQ'', url = ''https://youtu.be/dQw4w9WgXcQ'', title = Some ''Old'',
         channelName = None, scrapedAt = ''t0'', isAnalyzed = True,
         analysisFile = Some ''data/analysis.json''\<rparr>], lastUpdated = ''t0''\<rparr>, writable = True\<rparr>"
  let ?vd = "\<lparr>vd_videoId = ''dQw4w9WgXcQ'', vd_url = ''https://www.youtube.com/watch?v=dQw4w9WgXcQ'',
      vd_title = Some ''New'', vd_channelName = None\<rparr>"
  let ?calls = "[(''t1'', ?vd),
      (''t2'', \<lparr>vd_videoId = ''aaaaaaaaaaa'', vd_url = ''https://youtu.be/aaaaaaaaaaa'',
               vd_title = None, vd_channelName = None\<rparr>)]"
  have w: "writable ?fs" by simp
  have u: "index_unique ?fs" by (simp add: index_unique_def)
  have t: "trackNewVideo ''t1'' ?vd ?fs
   = (Inr \<lparr>videoId = ''dQw4w9WgXcQ'', url = ''https://www.youtube.com/watch?v=dQw4w9WgXcQ'',
           title = Some ''New'', channelName = None, scrapedAt = ''t1'', isAnalyzed = False,
           analysisFile = None\<rparr>,
      \<lparr>tracking_file = Some \<lparr>videos =
         [\<lparr>videoId = ''dQw4w9WgXcQ'', url = ''https://www.youtube.com/watch?v=dQw4w9WgXcQ'',
           title = Some ''New'', channelName = None, scrapedAt = ''t1'', isAnalyzed = False,
           analysisFile = Some ''data/analysis.json''\<rparr>], lastUpdated = ''t1''\<rparr>,
       writable = True\<rparr>)"
    by (simp add: trackNewVideo_def ensureTrackingFile_def saveTrackingData_def writeFile_def Let_def)
  have f: "filter (\<lambda>v. videoId v = ''dQw4w9WgXcQ'')
     (stored_videos \<lparr>tracking_file = Some \<lparr>videos =
         [\<lparr>videoId = ''dQw4w9WgXcQ'', url = ''https://www.youtube.com/watch?v=dQw4w9WgXcQ'',
           title = Some ''New'', channelName = None, scrapedAt = ''t1'', isAnalyzed = False,
           analysisFile = Some ''data/analysis.json''\<rparr>], lastUpdated = ''t1''\<rparr>,
       writable = True\<rparr>) =
     [\<lparr>videoId = ''dQw4w9WgXcQ'', url = ''https://www.youtube.com/watch?v=dQw4w9WgXcQ'',
       title = Some ''New'', channelName = None, scrapedAt = ''t1'', isAnalyzed = False,
       analysisFile = Some ''data/analysis.json''\<rparr>]"
    by (simp add: stored_videos_def)
  have a: "track_all ?calls ?fs
   = \<lparr>tracking_file = Some \<lparr>videos =
         [\<lparr>videoId = ''dQw4w9WgXcQ'', url = ''https://www.youtube.com/watch?v=dQw4w9WgXcQ'',
           title = Some ''New'', channelName = None, scrapedAt = ''t1'', isAnalyzed = False,
           analysisFile = Some ''data/analysis.json''\<rparr>,
          \<lparr>videoId = ''aaaaaaaaaaa'', url = ''https://youtu.be/aaaaaaaaaaa'',
           title = None, channelName = None, scrapedAt = ''t2'', isAnalyzed = False,
           analysisFile = None\<rparr>], lastUpdated = ''t2''\<rparr>, writable = True\<rparr>"
    by (simp add: trackNewVideo_def ensureTrackingFile_def saveTrackingData_def writeFile_def Let_def)
  note inv = track_upserts_by_identifier[where fs = ?fs and calls = ?calls,
      THEN conjunct2, THEN conjunct2, THEN conjunct2, THEN conjunct1, rule_format, OF u]
  show ?thesis
    by (intro conjI, rule w, rule u, rule t, rule f, rule a, rule inv)
qed

section \<open>Properties of reconciliation\<close>

lemma res_url_check_one: "res_url (check_one d u) = u"
  by (simp add: check_one_def split: sum.splits option.splits)

lemma check_one_exists_parsed:
  "res_exists (check_one d u) \<Longrightarrow> \<exists>vid. extractVideoId u = Inr vid"
  by (auto simp: check_one_def split: sum.splits option.splits)

text \<open>A successful check of the tool is a successful \<open>checkDuplicates\<close>, with its summary.\<close>

lemma tool_check_success:
  assumes "simpleVideoTrackerTool_check now urls fs = (out, fs')" and "success out"
  shows "\<exists>d. ensureTrackingFile now fs = (Inr d, fs') \<and>
           duplicateUrls (tool_summary out) =
             map res_url (filter res_exists (map (check_one d) urls)) \<and>
           newUrls (tool_summary out) =
             map res_url (filter (\<lambda>r. \<not> res_exists r \<and> res_error r = None)
                            (map (check_one d) urls))"
proof -
  obtain res1 fs1 where e: "ensureTrackingFile now fs = (res1, fs1)"
    by (cases "ensureTrackingFile now fs")
  show ?thesis
  proof (cases res1)
    case (Inl err)
    with e assms show ?thesis
      by (auto simp: simpleVideoTrackerTool_check_def checkDuplicates_def failed_output_def)
  next
    case (Inr d)
    with e assms show ?thesis
      by (auto simp: simpleVideoTrackerTool_check_def checkDuplicates_def Let_def)
  qed
qed

text \<open>A URL the tracker reports as duplicate is parsed by the tracker, and is not reported as new.\<close>

lemma duplicate_parsed_not_new:
  assumes "simpleVideoTrackerTool_check now urls fs = (out, fs')" and "success out"
    and "u \<in> set (duplicateUrls (tool_summary out))"
  shows "(\<exists>vid. extractVideoId u = Inr vid) \<and> u \<notin> set (newUrls (tool_summary out))"
proof -
  from tool_check_success[OF assms(1,2)] obtain d where
    dup: "duplicateUrls (tool_summary out) = map res_url (filter res_exists (map (check_one d) urls))"
    and new: "newUrls (tool_summary out) =
       map res_url (filter (\<lambda>r. \<not> res_exists r \<and> res_error r = None) (map (check_one d) urls))"
    by auto
  from assms(3) have ex: "res_exists (check_one d u)"
    unfolding dup by (auto simp: res_url_check_one)
  have "u \<notin> set (newUrls (tool_summary out))"
    unfolding new using ex by (auto simp: res_url_check_one)
  with check_one_exists_parsed[OF ex] show ?thesis by simp
qed

text \<open>The final list: the new URLs, and the duplicates that reconciliation adds back.\<close>

lemma reconcile_set:
  "set (reconcile st news dups) = set news \<union>
     (case select_existing st (List.map_filter coordinatorVideoId dups) of
        Inl e \<Rightarrow> {}
      | Inr existing \<Rightarrow>
          {u \<in> set dups. \<exists>vid. coordinatorVideoId u = Some vid \<and> vid \<noteq> [] \<and> vid \<notin> set existing})"
  by (auto simp: reconcile_def Let_def filter_empty_conv split: sum.splits option.splits)

text \<open>When the storage query throws, the tracker's answer stands.\<close>

lemma reconcile_query_fails: "\<not> db_available st \<Longrightarrow> reconcile st news dups = news"
  by (simp add: reconcile_def select_existing_def Let_def)

lemma select_existing_set:
  "select_existing st ids = Inr ex \<Longrightarrow> set ex = set (video_ids st) \<inter> set ids"
  by (auto simp: select_existing_def split: if_splits)

lemma strict_token_length: "strict_token r = Some t \<Longrightarrow> length t = 11"
  by (auto simp: strict_token_def split: if_splits)

lemma match_here_strict: "match_here lits strict_token s = Some t \<Longrightarrow> length t = 11"
  by (induction lits) (auto split: option.splits dest: strict_token_length)

lemma strict_pattern_length: "strict_pattern s = Some t \<Longrightarrow> length t = 11"
  unfolding strict_pattern_def by (rule match_here_strict)

lemma first_match_strict: "first_match strict_pattern s = Some t \<Longrightarrow> length t = 11"
  by (induction s) (auto split: option.splits dest: strict_pattern_length)

lemma coordinatorVideoId_length: "coordinatorVideoId u = Some vid \<Longrightarrow> length vid = 11"
  by (simp add: coordinatorVideoId_def first_match_strict)

lemma finalVideosToScrape_success:
  assumes "simpleVideoTrackerTool_check now urls fs = (out, fs')" and "success out"
  shows "finalVideosToScrape now urls fs st =
           (Inr (reconcile st (newUrls (tool_summary out)) (duplicateUrls (tool_summary out))), fs')"
  using assms by (simp add: finalVideosToScrape_def)

text \<open>
  Claim C3, as stated, fails on the code. First input: the tracker knows \<open>dQw4w9WgXcQ\<close>, the
  \<open>videos\<close> table is empty and the query throws; the watch URL is a duplicate for the tracker,
  its identifier is not in storage, and the final list is empty. Second input: the same
  tracker and an empty table whose query succeeds; the embed URL of that video is a duplicate
  for the tracker, its identifier is not in storage, and the final list is empty.
\<close>

theorem reconcile_counterexample:
  "success (fst (simpleVideoTrackerTool_check ''t1''
       [''https://www.youtube.com/watch?v=dQw4w9WgXcQ''] tracked_fs)) \<and>
   duplicateUrls (tool_summary (fst (simpleVideoTrackerTool_check ''t1''
       [''https://www.youtube.com/watch?v=dQw4w9WgXcQ''] tracked_fs))) =
     [''https://www.youtube.com/watch?v=dQw4w9WgXcQ''] \<and>
   extractVideoId ''https://www.youtube.com/watch?v=dQw4w9WgXcQ'' = Inr ''dQw4w9WgXcQ'' \<and>
   ''dQw4w9WgXcQ'' \<notin> set (video_ids \<lparr>video_ids = [], db_available = False\<rparr>) \<and>
   fst (finalVideosToScrape ''t1'' [''https://www.youtube.com/watch?v=dQw4w9WgXcQ''] tracked_fs
          \<lparr>video_ids = [], db_available = False\<rparr>) = Inr [] \<and>
   success (fst (simpleVideoTrackerTool_check ''t1''
       [''https://www.youtube.com/embed/dQw4w9WgXcQ''] tracked_fs)) \<and>
   duplicateUrls (tool_summary (fst (simpleVideoTrackerTool_check ''t1''
       [''https://www.youtube.com/embed/dQw4w9WgXcQ''] tracked_fs))) =
     [''https://www.youtube.com/embed/dQw4w9WgXcQ''] \<and>
   extractVideoId ''https://www.youtube.com/embed/dQw4w9WgXcQ'' = Inr ''dQw4w9WgXcQ'' \<and>
   ''dQw4w9WgXcQ'' \<notin> set (video_ids \<lparr>video_ids = [], db_available = True\<rparr>) \<and>
   fst (finalVideosToScrape ''t1'' [''https://www.youtube.com/embed/dQw4w9WgXcQ''] tracked_fs
          \<lparr>video_ids = [], db_available = True\<rparr>) = Inr []"
  by code_simp

text \<open>
  Claim C3, amended. A URL the tracker reports as duplicate is moved back into the list to
  scrape when the coordinator's own pattern reads an identifier off it (\<open>watch?v=\<close> or
  \<open>youtu.be/\<close> followed by eleven identifier characters), the storage query succeeds, and
  that identifier is not in the \<open>videos\<close> table.
\<close>

theorem reconcile_readds_missing:
  assumes "simpleVideoTrackerTool_check now urls fs = (out, fs')" and "success out"
    and "u \<in> set (duplicateUrls (tool_summary out))"
    and "coordinatorVideoId u = Some vid"
    and "db_available st"
    and "vid \<notin> set (video_ids st)"
  shows "\<exists>final. finalVideosToScrape now urls fs st = (Inr final, fs') \<and> u \<in> set final"
proof -
  let ?dups = "duplicateUrls (tool_summary out)"
  obtain ex where ex: "select_existing st (List.map_filter coordinatorVideoId ?dups) = Inr ex"
    using assms(5) by (simp add: select_existing_def)
  from select_existing_set[OF ex] assms(6) have "vid \<notin> set ex" by auto
  moreover from coordinatorVideoId_length[OF assms(4)] have "vid \<noteq> []" by auto
  ultimately have "u \<in> set (reconcile st (newUrls (tool_summary out)) ?dups)"
    using assms(3,4) ex by (simp add: reconcile_set)
  with finalVideosToScrape_success[OF assms(1,2)] show ?thesis by simp
qed

theorem reconcile_readds_missing_witness:
  "success (fst (simpleVideoTrackerTool_check ''t1''
       [''https://www.youtube.com/watch?v=dQw4w9WgXcQ''] tracked_fs)) \<and>
   ''https://www.youtube.com/watch?v=dQw4w9WgXcQ'' \<in>
     set (duplicateUrls (tool_summary (fst (simpleVideoTrackerTool_check ''t1''
       [''https://www.youtube.com/watch?v=dQw4w9WgXcQ''] tracked_fs)))) \<and>
   coordinatorVideoId ''https://www.youtube.com/watch?v=dQw4w9WgXcQ'' = Some ''dQw4w9WgXcQ'' \<and>
   db_available \<lparr>video_ids = [''aaaaaaaaaaa''], db_available = True\<rparr> \<and>
   ''dQw4w9WgXcQ'' \<notin> set (video_ids \<lparr>video_ids = [''aaaaaaaaaaa''], db_available = True\<rparr>) \<and>
   (\<exists>final. finalVideosToScrape ''t1'' [''https://www.youtube.com/watch?v=dQw4w9WgXcQ'']
        tracked_fs \<lparr>video_ids = [''aaaaaaaaaaa''], db_available = True\<rparr> =
      (Inr final, snd (simpleVideoTrackerTool_check ''t1''
        [''https://www.youtube.com/watch?v=dQw4w9WgXcQ''] tracked_fs)) \<and>
      ''https://www.youtube.com/watch?v=dQw4w9WgXcQ'' \<in> set final)"
proof -
  let ?u = "''https://www.youtube.com/watch?v=dQw4w9WgXcQ''"
  let ?st = "\<lparr>video_ids = [''aaaaaaaaaaa''], db_available = True\<rparr>"
  have p: "simpleVideoTrackerTool_check ''t1'' [?u] tracked_fs =
             (fst (simpleVideoTrackerTool_check ''t1'' [?u] tracked_fs),
              snd (simpleVideoTrackerTool_check ''t1'' [?u] tracked_fs))" by simp
  have s: "success (fst (simpleVideoTrackerTool_check ''t1'' [?u] tracked_fs))" by code_simp
  have d: "?u \<in> set (duplicateUrls (tool_summary (fst (simpleVideoTrackerTool_check ''t1'' [?u] tracked_fs))))"
    by code_simp
  have c: "coordinatorVideoId ?u = Some ''dQw4w9WgXcQ''" by code_simp
  have a: "db_available ?st" by simp
  have m: "''dQw4w9WgXcQ'' \<notin> set (video_ids ?st)" by simp
  from reconcile_readds_missing[OF p s d c a m] s d c a m show ?thesis by blast
qed

text \<open>
  Claim C10. A URL the tracker reports as duplicate (so the tracker's \<open>extractVideoId\<close>
  parses it) that the coordinator's stricter pattern does not parse is not in the final list to
  scrape, whatever the storage holds and whether or not its query succeeds.
\<close>

theorem strict_unparsed_never_readded:
  assumes "simpleVideoTrackerTool_check now urls fs = (out, fs')" and "success out"
    and "u \<in> set (duplicateUrls (tool_summary out))"
    and "coordinatorVideoId u = None"
  shows "(\<exists>vid. extractVideoId u = Inr vid) \<and>
         (\<forall>st. \<exists>final. finalVideosToScrape now urls fs st = (Inr final, fs') \<and> u \<notin> set final)"
proof -
  from duplicate_parsed_not_new[OF assms(1,2,3)]
  have parsed: "\<exists>vid. extractVideoId u = Inr vid"
    and notnew: "u \<notin> set (newUrls (tool_summary out))" by simp_all
  have "u \<notin> set (reconcile st (newUrls (tool_summary out)) (duplicateUrls (tool_summary out)))"
    for st using notnew assms(4) by (auto simp: reconcile_set split: sum.splits)
  with finalVideosToScrape_success[OF assms(1,2)] parsed show ?thesis by simp
qed

theorem strict_unparsed_never_readded_witness:
  "success (fst (simpleVideoTrackerTool_check ''t1''
       [''https://www.youtube.com/embed/dQw4w9WgXcQ''] tracked_fs)) \<and>
   ''https://www.youtube.com/embed/dQw4w9WgXcQ'' \<in>
     set (duplicateUrls (tool_summary (fst (simpleVideoTrackerTool_check ''t1''
       [''https://www.youtube.com/embed/dQw4w9WgXcQ''] tracked_fs)))) \<and>
   coordinatorVideoId ''https://www.youtube.com/embed/dQw4w9WgXcQ'' = None \<and>
   (\<exists>vid. extractVideoId ''https://www.youtube.com/embed/dQw4w9WgXcQ'' = Inr vid) \<and>
   (\<forall>st. \<exists>final. finalVideosToScrape ''t1'' [''https://www.youtube.com/embed/dQw4w9WgXcQ'']
        tracked_fs st =
      (Inr final, snd (simpleVideoTrackerTool_check ''t1''
        [''https://www.youtube.com/embed/dQw4w9WgXcQ''] tracked_fs)) \<and>
      ''https://www.youtube.com/embed/dQw4w9WgXcQ'' \<notin> set final)"
proof -
  let ?u = "''https://www.youtube.com/embed/dQw4w9WgXcQ''"
  have p: "simpleVideoTrackerTool_check ''t1'' [?u] tracked_fs =
             (fst (simpleVideoTrackerTool_check ''t1'' [?u] tracked_fs),
              snd (simpleVideoTrackerTool_check ''t1'' [?u] tracked_fs))" by simp
  have s: "success (fst (simpleVideoTrackerTool_check ''t1'' [?u] tracked_fs))" by code_simp
  have d: "?u \<in> set (duplicateUrls (tool_summary (fst (simpleVideoTrackerTool_check ''t1'' [?u] tracked_fs))))"
    by code_simp
  have c: "coordinatorVideoId ?u = None" by code_simp
  from strict_unparsed_never_readded[OF p s d c] s d c show ?thesis by blast
qed

text \<open>
  The other shapes on which the two extractions part: the \<open>/v/\<close> form, a token shorter than
  eleven characters, a token with a character outside the identifier class. A longer token is
  parsed by both, to different identifiers: the coordinator keeps its first eleven characters.
\<close>

lemma extraction_disagreements:
  "extractVideoId ''https://www.youtube.com/v/dQw4w9WgXcQ'' = Inr ''dQw4w9WgXcQ''"
  "coordinatorVideoId ''https://www.youtube.com/v/dQw4w9WgXcQ'' = None"
  "extractVideoId ''https://youtu.be/abc'' = Inr ''abc''"
  "coordinatorVideoId ''https://youtu.be/abc'' = None"
  "extractVideoId ''https://youtu.be/dQw4w9.gXcQ'' = Inr ''dQw4w9.gXcQ''"
  "coordinatorVideoId ''https://youtu.be/dQw4w9.gXcQ'' = None"
  "extractVideoId ''https://youtu.be/dQw4w9WgXcQ123'' = Inr ''dQw4w9WgXcQ123''"
  "coordinatorVideoId ''https://youtu.be/dQw4w9WgXcQ123'' = Some ''dQw4w9WgXcQ''"
  by code_simp+

section \<open>Properties of the harvested comments\<close>

lemma extract_comments_long: "c \<in> set (extract_comments els) \<Longrightarrow> 10 < length c"
  by (auto simp: extract_comments_def List.map_filter_def Let_def split: option.splits if_splits)

lemma getYouTubeVideoData_comments:
  assumes "fst (getYouTubeVideoData w now u) = Inr v"
  shows "\<exists>page. open_watch_page w u = Inr page \<and>
           v_comments v = take 50 (extract_comments (commentTexts page))"
  using assms
  by (auto simp: getYouTubeVideoData_def split: option.splits prod.splits sum.splits)

text \<open>
  Claim C9. A harvested video carries at most 50 comments, each of length at least 10; no
  string shorter than 10 characters is among them.
\<close>

theorem harvested_comments_bounded:
  assumes "fst (getYouTubeVideoData w now u) = Inr v"
  shows "length (v_comments v) \<le> 50 \<and> (\<forall>c\<in>set (v_comments v). 10 \<le> length c) \<and>
         (\<forall>s. length s < 10 \<longrightarrow> s \<notin> set (v_comments v))"
proof -
  from getYouTubeVideoData_comments[OF assms] obtain page where
    "open_watch_page w u = Inr page \<and>
     v_comments v = take 50 (extract_comments (commentTexts page))" ..
  then have c: "v_comments v = take 50 (extract_comments (commentTexts page))" ..
  have long: "\<And>x. x \<in> set (v_comments v) \<Longrightarrow> 10 < length x"
    unfolding c by (blast dest: in_set_takeD extract_comments_long)
  have "length (v_comments v) \<le> 50" unfolding c by simp
  moreover have "\<forall>x\<in>set (v_comments v). 10 \<le> length x" using long by fastforce
  moreover have "\<forall>s. length s < 10 \<longrightarrow> s \<notin> set (v_comments v)" using long by fastforce
  ultimately show ?thesis by blast
qed

theorem harvested_comments_bounded_witness:
  "fst (getYouTubeVideoData hello_world ''t1'' ''https://www.youtube.com/watch?v=dQw4w9WgXcQ'') =
     Inr \<lparr>v_videoId = ''dQw4w9WgXcQ'', v_url = ''https://www.youtube.com/watch?v=dQw4w9WgXcQ'',
          v_title = ''A title'', v_views = ''0 views'', v_likes = ''Likes not found'',
          v_description = ''Description not found'', v_channelName = ''A channel'',
          v_subscribers = ''Subscribers not found'', v_tags = [],
          v_transcript = ''hello world'',
          v_comments = [''This video really helped me a lot''], v_scrapedAt = ''t1''\<rparr> \<and>
   length [''This video really helped me a lot''] \<le> 50 \<and>
   10 \<le> length ''This video really helped me a lot'' \<and>
   ''great'' \<notin> set [''This video really helped me a lot'']"
proof -
  have h: "fst (getYouTubeVideoData hello_world ''t1'' ''https://www.youtube.com/watch?v=dQw4w9WgXcQ'') =
     Inr \<lparr>v_videoId = ''dQw4w9WgXcQ'', v_url = ''https://www.youtube.com/watch?v=dQw4w9WgXcQ'',
          v_title = ''A title'', v_views = ''0 views'', v_likes = ''Likes not found'',
          v_description = ''Description not found'', v_channelName = ''A channel'',
          v_subscribers = ''Subscribers not found'', v_tags = [],
          v_transcript = ''hello world'',
          v_comments = [''This video really helped me a lot''], v_scrapedAt = ''t1''\<rparr>"
    by code_simp
  from harvested_comments_bounded[OF h] h show ?thesis by simp
qed

text \<open>
  The threshold of the code is strict: a comment of exactly ten characters is dropped as well,
  and only the first 50 elements of the page are looked at.
\<close>

lemma extract_comments_ten_dropped: "extract_comments [Some ''0123456789''] = []"
  by code_simp

lemma extract_comments_window:
  "extract_comments els = extract_comments (take 50 els)"
  by (simp add: extract_comments_def min_def)

section \<open>Properties of transcript resolution\<close>

text \<open>
  Claim C2. \<open>getYouTubeTranscriptViaDownload\<close>, which is the whole of the transcript
  resolution, returns a string in every world and for every URL; when the download throws, or
  the transcription of the downloaded file throws, the string is empty (also when \<open>cleanup\<close>
  throws afterwards).
\<close>

theorem transcript_never_throws:
  "(\<exists>t. fst (getYouTubeTranscriptViaDownload w u) = Inr t) \<and>
   ((case download w u of Inl e \<Rightarrow> True | Inr d \<Rightarrow> isl (transcribe w (audioPath d))) \<longrightarrow>
      fst (getYouTubeTranscriptViaDownload w u) = Inr [])"
  by (auto simp: getYouTubeTranscriptViaDownload_def Let_def try_catch_def try_finally_def
      split: sum.splits)

theorem transcript_never_throws_witness:
  "(case download failing_world ''https://youtu.be/dQw4w9WgXcQ'' of
      Inl e \<Rightarrow> True | Inr d \<Rightarrow> isl (transcribe failing_world (audioPath d))) \<and>
   cleanup (projr (download failing_world ''https://youtu.be/dQw4w9WgXcQ'')) = Inl (Error ''EBUSY'') \<and>
   fst (getYouTubeTranscriptViaDownload failing_world ''https://youtu.be/dQw4w9WgXcQ'') = Inr []"
proof -
  have h: "case download failing_world ''https://youtu.be/dQw4w9WgXcQ'' of
      Inl e \<Rightarrow> True | Inr d \<Rightarrow> isl (transcribe failing_world (audioPath d))"
    by (simp add: failing_world_def)
  have c: "cleanup (projr (download failing_world ''https://youtu.be/dQw4w9WgXcQ'')) = Inl (Error ''EBUSY'')"
    by (simp add: failing_world_def)
  from transcript_never_throws[of failing_world "''https://youtu.be/dQw4w9WgXcQ''"] h c
  show ?thesis by blast
qed

text \<open>The temporary file is cleaned up whenever the download returned one.\<close>

lemma transcript_cleanup_runs:
  "download w u = Inr d \<Longrightarrow>
     snd (getYouTubeTranscriptViaDownload w u) = [Attempted DownloadTranscribe, CleanedUp (audioPath d)]"
  by (simp add: getYouTubeTranscriptViaDownload_def Let_def)

text \<open>
  Claim C1, as stated, fails on the code. In a Playwright world where the panel and the
  caption track give nothing, and a world where download-and-transcribe gives
  \<open>hello world\<close>, the video data carries the transcript \<open>hello world\<close> after one attempt, the
  download-and-transcribe one; the attempts are not the three strategies in order.
\<close>

theorem resolver_chain_counterexample:
  "getTranscriptViaPlaywright silent_playwright ''https://www.youtube.com/watch?v=dQw4w9WgXcQ'' =
     (Inr [], [Attempted TranscriptPanel, Attempted CaptionTrack, BrowserClosed]) \<and>
   fst (getYouTubeTranscriptViaDownload hello_world ''https://www.youtube.com/watch?v=dQw4w9WgXcQ'') =
     Inr ''hello world'' \<and>
   map_sum id v_transcript
     (fst (getYouTubeVideoData hello_world ''t1'' ''https://www.youtube.com/watch?v=dQw4w9WgXcQ'')) =
     Inr ''hello world'' \<and>
   attempts (snd (getYouTubeVideoData hello_world ''t1'' ''https://www.youtube.com/watch?v=dQw4w9WgXcQ'')) =
     [DownloadTranscribe] \<and>
   attempts (snd (getYouTubeVideoData hello_world ''t1'' ''https://www.youtube.com/watch?v=dQw4w9WgXcQ'')) \<noteq>
     [TranscriptPanel, CaptionTrack, DownloadTranscribe]"
  by code_simp

lemma playwright_attempts:
  "attempts (snd (getTranscriptViaPlaywright pw u)) =
     (case open_panel_page pw u of
        Inl e \<Rightarrow> [TranscriptPanel]
      | Inr p \<Rightarrow> if moreActionsVisible p \<and> transcriptOptionVisible p \<and> panel_segments p \<noteq> []
                 then [TranscriptPanel] else [TranscriptPanel, CaptionTrack])"
  by (auto simp: getTranscriptViaPlaywright_def attempts_def split: sum.splits)

lemma video_data_attempts:
  "coordinatorVideoId u = Some vid \<Longrightarrow>
     attempts (snd (getYouTubeVideoData w now u)) = [DownloadTranscribe]"
  by (auto simp: getYouTubeVideoData_def getYouTubeTranscriptViaDownload_def Let_def attempts_def
      try_catch_def try_finally_def split: sum.splits)

text \<open>
  Claim C1, amended. For a URL the scraper parses, transcript resolution is one attempt, the
  download-and-transcribe strategy; when that strategy returns a text (such as
  \<open>hello world\<close>), the text is the transcript of the video data. The panel and caption-track
  strategies are a chain of their own in \<open>getTranscriptViaPlaywright\<close>, which resolution
  does not call: the panel first, the caption track attempted only when the page opened and
  the panel gave no segment.
\<close>

theorem resolver_single_strategy:
  assumes "coordinatorVideoId u = Some vid"
    and "download w u = Inr d" and "transcribe w (audioPath d) = Inr t"
  shows "attempts (snd (getYouTubeVideoData w now u)) = [DownloadTranscribe] \<and>
         fst (getYouTubeTranscriptViaDownload w u) = Inr (tr_text t) \<and>
         (\<forall>v. fst (getYouTubeVideoData w now u) = Inr v \<longrightarrow> v_transcript v = tr_text t) \<and>
         attempts (snd (getTranscriptViaPlaywright pw u)) =
           (case open_panel_page pw u of
              Inl e \<Rightarrow> [TranscriptPanel]
            | Inr p \<Rightarrow>
                if moreActionsVisible p \<and> transcriptOptionVisible p \<and> panel_segments p \<noteq> []
                then [TranscriptPanel] else [TranscriptPanel, CaptionTrack])"
proof -
  have t: "fst (getYouTubeTranscriptViaDownload w u) = Inr (tr_text t)"
    using assms(2,3)
    by (simp add: getYouTubeTranscriptViaDownload_def Let_def try_catch_def try_finally_def
        split: sum.splits)
  have "\<forall>v. fst (getYouTubeVideoData w now u) = Inr v \<longrightarrow> v_transcript v = tr_text t"
    using assms(1) t
    by (auto simp: getYouTubeVideoData_def split: sum.splits prod.splits)
  with t video_data_attempts[OF assms(1)] playwright_attempts show ?thesis by simp
qed

theorem resolver_single_strategy_witness:
  "coordinatorVideoId ''https://www.youtube.com/watch?v=dQw4w9WgXcQ'' = Some ''dQw4w9WgXcQ'' \<and>
   download hello_world ''https://www.youtube.com/watch?v=dQw4w9WgXcQ'' =
     Inr \<lparr>audioPath = ''/tmp/youtube-audio/audio_1.mp3'', fileSize = ''0.10 MB'',
          cleanup = Inr ()\<rparr> \<and>
   transcribe hello_world ''/tmp/youtube-audio/audio_1.mp3'' =
     Inr \<lparr>tr_text = ''hello world'', tr_duration = 1, tr_language = ''en''\<rparr> \<and>
   attempts (snd (getYouTubeVideoData hello_world ''t1'' ''https://www.youtube.com/watch?v=dQw4w9WgXcQ'')) =
     [DownloadTranscribe] \<and>
   fst (getYouTubeTranscriptViaDownload hello_world ''https://www.youtube.com/watch?v=dQw4w9WgXcQ'') =
     Inr ''hello world'' \<and>
   map_sum id v_transcript
     (fst (getYouTubeVideoData hello_world ''t1'' ''https://www.youtube.com/watch?v=dQw4w9WgXcQ'')) =
     Inr ''hello world'' \<and>
   attempts (snd (getTranscriptViaPlaywright silent_playwright
                    ''https://www.youtube.com/watch?v=dQw4w9WgXcQ'')) =
     [TranscriptPanel, CaptionTrack]"
proof -
  let ?u = "''https://www.youtube.com/watch?v=dQw4w9WgXcQ''"
  have c: "coordinatorVideoId ?u = Some ''dQw4w9WgXcQ''" by code_simp
  have d: "download hello_world ?u =
     Inr \<lparr>audioPath = ''/tmp/youtube-audio/audio_1.mp3'', fileSize = ''0.10 MB'',
          cleanup = Inr ()\<rparr>"
    by (simp add: hello_world_def)
  have t: "transcribe hello_world
             (audioPath \<lparr>audioPath = ''/tmp/youtube-audio/audio_1.mp3'', fileSize = ''0.10 MB'',
                         cleanup = Inr ()\<rparr>) =
     Inr \<lparr>tr_text = ''hello world'', tr_duration = 1, tr_language = ''en''\<rparr>"
    by (simp add: hello_world_def)
  have p: "open_panel_page silent_playwright ?u =
     Inr \<lparr>moreActionsVisible = False, transcriptOptionVisible = False, segmentTexts = []\<rparr>"
    by (simp add: silent_playwright_def)
  have v: "\<exists>v. fst (getYouTubeVideoData hello_world ''t1'' ?u) = Inr v"
    by (simp add: getYouTubeVideoData_def c hello_world_def getYouTubeTranscriptViaDownload_def
        try_catch_def try_finally_def)
  from resolver_single_strategy[OF c d t, of "''t1''" silent_playwright] c d t p v
  show ?thesis by auto
qed

section \<open>Properties of the persisted analysis\<close>

lemma truncation_marker_length: "length truncation_marker = 35"
  by (simp add: truncation_marker_def)

lemma safeRawAnalysis_long:
  assumes "r = JString s \<or> r = JObject s \<or> r = JPrimitive s" and "262144 < length s"
  shows "safeRawAnalysis r = Some (take 262044 s @ truncation_marker)"
proof -
  from assms(2) have "s \<noteq> []" by auto
  with assms show ?thesis
    by (auto simp: safeRawAnalysis_def truthy_def MAX_RAW_ANALYSIS_SIZE_def Let_def)
qed

text \<open>Whatever the field holds, what is stored is within the cap.\<close>

lemma safeRawAnalysis_bound: "safeRawAnalysis r = Some v \<Longrightarrow> length v \<le> 262144"
  by (auto simp: safeRawAnalysis_def MAX_RAW_ANALYSIS_SIZE_def Let_def truncation_marker_length
      split: if_splits js_value.splits)

text \<open>A text within the cap is stored as it is.\<close>

lemma safeRawAnalysis_short:
  "s \<noteq> [] \<Longrightarrow> length s \<le> 262144 \<Longrightarrow> safeRawAnalysis (JString s) = Some s"
  by (simp add: safeRawAnalysis_def truthy_def MAX_RAW_ANALYSIS_SIZE_def)

lemma upsert_content_analysis_find:
  "List.find (\<lambda>r. ca_videoId r = ca_videoId row) (upsert_content_analysis row table) = Some row"
proof (cases "list_ex (\<lambda>r. ca_videoId r = ca_videoId row) table")
  case True
  have "List.find (\<lambda>r. ca_videoId r = ca_videoId row)
          (map (\<lambda>r. if ca_videoId r = ca_videoId row then row else r) table) = Some row"
    using True by (induction table) auto
  with True show ?thesis by (simp add: upsert_content_analysis_def)
next
  case False
  then have "List.find (\<lambda>r. ca_videoId r = ca_videoId row) (table @ [row]) = Some row"
    by (induction table) auto
  with False show ?thesis by (simp add: upsert_content_analysis_def)
qed

lemma contentAnalysis_values_row:
  "contentAnalysis_values parse_date now vid a = Inr row \<Longrightarrow>
     ca_videoId row = vid \<and> ca_rawAnalysis row = safeRawAnalysis (rawAnalysis a) \<and>
     ca_analysisModel row =
       (case analysisModel a of None \<Rightarrow> None | Some m \<Rightarrow> if m = [] then None else Some m)"
  by (auto simp: contentAnalysis_values_def split: option.splits if_splits)

text \<open>A successful save has stored the row built from the analysis, under the video's identifier.\<close>

lemma save_analysis_success:
  assumes "save_analysis parse_date now vid (Some a) st = (Inr u, st')"
  shows "\<exists>row. contentAnalysis_values parse_date now vid a = Inr row \<and>
           List.find (\<lambda>r. ca_videoId r = vid) (content_analysis st') = Some row"
proof -
  from assms obtain row where
    row: "contentAnalysis_values parse_date now vid a = Inr row"
    and ins: "insert_content_analysis row st = (Inr u, st')"
    by (auto simp: save_analysis_def split: sum.splits)
  from ins have "content_analysis st' = upsert_content_analysis row (content_analysis st)"
    by (auto simp: insert_content_analysis_def split: if_splits)
  moreover from contentAnalysis_values_row[OF row] have "ca_videoId row = vid" by simp
  ultimately have "List.find (\<lambda>r. ca_videoId r = vid) (content_analysis st') = Some row"
    using upsert_content_analysis_find[of row "content_analysis st"] by simp
  with row show ?thesis by blast
qed

text \<open>
  The write succeeds when the database answers, the identifier and the model name fit their
  columns and the date is a date: the length of \<open>rawAnalysis\<close> is not among the conditions.
\<close>

lemma save_analysis_succeeds:
  assumes "store_available st" and "length vid \<le> 20"
    and "case analysisModel a of None \<Rightarrow> True | Some m \<Rightarrow> length m \<le> 100"
    and "case analyzedAt a of None \<Rightarrow> True | Some t \<Rightarrow> t = [] \<or> parse_date t \<noteq> None"
  shows "\<exists>st'. save_analysis parse_date now vid (Some a) st = (Inr (), st')"
  using assms
  by (auto simp: save_analysis_def contentAnalysis_values_def insert_content_analysis_def
      split: option.splits)

text \<open>A save that throws has stored nothing.\<close>

lemma save_analysis_failure:
  "save_analysis parse_date now vid a st = (Inl e, st') \<Longrightarrow> st' = st"
  by (auto simp: save_analysis_def insert_content_analysis_def split: option.splits sum.splits if_splits)

text \<open>
  Claim C4. For an analysis whose \<open>rawAnalysis\<close> text \<open>s\<close> is longer than 262144
  characters: the length is no cause of failure (the save succeeds whenever the database
  answers, the identifier and the model name fit their columns and the date is a date); a save
  that succeeds has stored, under the video's identifier, a row whose \<open>rawAnalysis\<close> is the
  first 262044 characters of \<open>s\<close> followed by the truncation marker, which is at most 262144
  characters long and ends in the marker; a save that throws has stored nothing.
\<close>

theorem raw_analysis_truncated:
  assumes "rawAnalysis a = JString s \<or> rawAnalysis a = JObject s \<or> rawAnalysis a = JPrimitive s"
    and "262144 < length s"
  shows "(store_available st \<longrightarrow> length vid \<le> 20 \<longrightarrow>
            (case analysisModel a of None \<Rightarrow> True | Some m \<Rightarrow> length m \<le> 100) \<longrightarrow>
            (case analyzedAt a of None \<Rightarrow> True | Some t \<Rightarrow> t = [] \<or> parse_date t \<noteq> None) \<longrightarrow>
            (\<exists>st1. save_analysis parse_date now vid (Some a) st = (Inr (), st1))) \<and>
         (save_analysis parse_date now vid (Some a) st = (Inr u, st') \<longrightarrow>
            (\<exists>row. List.find (\<lambda>r. ca_videoId r = vid) (content_analysis st') = Some row \<and>
                   ca_rawAnalysis row = Some (take 262044 s @ truncation_marker) \<and>
                   length (take 262044 s @ truncation_marker) \<le> 262144 \<and>
                   suffix truncation_marker (take 262044 s @ truncation_marker))) \<and>
         (save_analysis parse_date now vid (Some a) st = (Inl e, st2) \<longrightarrow> st2 = st)"
proof (intro conjI impI)
  assume "store_available st" "length vid \<le> 20"
    "case analysisModel a of None \<Rightarrow> True | Some m \<Rightarrow> length m \<le> 100"
    "case analyzedAt a of None \<Rightarrow> True | Some t \<Rightarrow> t = [] \<or> parse_date t \<noteq> None"
  then show "\<exists>st1. save_analysis parse_date now vid (Some a) st = (Inr (), st1)"
    by (rule save_analysis_succeeds)
next
  assume ok: "save_analysis parse_date now vid (Some a) st = (Inr u, st')"
  from save_analysis_success[OF ok] obtain row where
    row: "contentAnalysis_values parse_date now vid a = Inr row"
    and found: "List.find (\<lambda>r. ca_videoId r = vid) (content_analysis st') = Some row"
    by blast
  from contentAnalysis_values_row[OF row] safeRawAnalysis_long[OF assms]
  have "ca_rawAnalysis row = Some (take 262044 s @ truncation_marker)" by simp
  moreover have "length (take 262044 s @ truncation_marker) \<le> 262144"
    by (simp add: truncation_marker_length)
  moreover have "suffix truncation_marker (take 262044 s @ truncation_marker)"
    by (simp add: suffix_def)
  ultimately show "\<exists>row. List.find (\<lambda>r. ca_videoId r = vid) (content_analysis st') = Some row \<and>
                   ca_rawAnalysis row = Some (take 262044 s @ truncation_marker) \<and>
                   length (take 262044 s @ truncation_marker) \<le> 262144 \<and>
                   suffix truncation_marker (take 262044 s @ truncation_marker)"
    using found by blast
next
  assume "save_analysis parse_date now vid (Some a) st = (Inl e, st2)"
  then show "st2 = st" by (rule save_analysis_failure)
qed

theorem raw_analysis_truncated_witness:
  "262144 < length (replicate 307200 CHR ''x'') \<and>
   (\<exists>st1 row.
      save_analysis (\<lambda>t. if t = ''2024-01-01T00:00:00.000Z'' then Some t else None)
        ''t1'' ''dQw4w9WgXcQ''
        (Some \<lparr>audienceProblems = JFalsy, emotionalHooks = JFalsy, mythsToBust = JFalsy,
               contentPatterns = JFalsy, audienceLanguage = JFalsy,
               rawAnalysis = JString (replicate 307200 CHR ''x''),
               analyzedAt = Some ''2024-01-01T00:00:00.000Z'',
               analysisModel = Some ''gpt-4o''\<rparr>)
        \<lparr>content_analysis = [], store_available = True\<rparr> = (Inr (), st1) \<and>
      List.find (\<lambda>r. ca_videoId r = ''dQw4w9WgXcQ'') (content_analysis st1) = Some row \<and>
      ca_rawAnalysis row = Some (take 262044 (replicate 307200 CHR ''x'') @ truncation_marker) \<and>
      length (take 262044 (replicate 307200 CHR ''x'') @ truncation_marker) \<le> 262144 \<and>
      suffix truncation_marker (take 262044 (replicate 307200 CHR ''x'') @ truncation_marker))"
proof -
  let ?pd = "\<lambda>t. if t = ''2024-01-01T00:00:00.000Z'' then Some t else None"
  let ?a = "\<lparr>audienceProblems = JFalsy, emotionalHooks = JFalsy, mythsToBust = JFalsy,
               contentPatterns = JFalsy, audienceLanguage = JFalsy,
               rawAnalysis = JString (replicate 307200 CHR ''x''),
               analyzedAt = Some ''2024-01-01T00:00:00.000Z'',
               analysisModel = Some ''gpt-4o''\<rparr>"
  let ?st = "\<lparr>content_analysis = [], store_available = True\<rparr>"
  have len: "262144 < length (replicate 307200 CHR ''x'')"
    by simp
  have raw: "rawAnalysis ?a = JString (replicate 307200 CHR ''x'') \<or>
             rawAnalysis ?a = JObject (replicate 307200 CHR ''x'') \<or>
             rawAnalysis ?a = JPrimitive (replicate 307200 CHR ''x'')"
    by simp
  have up: "store_available ?st" by simp
  have vid: "length ''dQw4w9WgXcQ'' \<le> 20" by simp
  have model: "case analysisModel ?a of None \<Rightarrow> True | Some m \<Rightarrow> length m \<le> 100" by simp
  have date: "case analyzedAt ?a of None \<Rightarrow> True | Some t \<Rightarrow> t = [] \<or> ?pd t \<noteq> None" by simp
  note T = raw_analysis_truncated[OF raw len, where st = ?st and vid = "''dQw4w9WgXcQ''"
      and parse_date = ?pd and now = "''t1''"]
  from T[THEN conjunct1, rule_format, OF up vid model date] obtain st1 where
    ok: "save_analysis ?pd ''t1'' ''dQw4w9WgXcQ'' (Some ?a) ?st = (Inr (), st1)" ..
  from T[THEN conjunct2, THEN conjunct1, rule_format, OF ok] obtain row where
    "List.find (\<lambda>r. ca_videoId r = ''dQw4w9WgXcQ'') (content_analysis st1) = Some row \<and>
     ca_rawAnalysis row = Some (take 262044 (replicate 307200 CHR ''x'') @ truncation_marker) \<and>
     length (take 262044 (replicate 307200 CHR ''x'') @ truncation_marker) \<le> 262144 \<and>
     suffix truncation_marker (take 262044 (replicate 307200 CHR ''x'') @ truncation_marker)" ..
  with ok have "\<exists>st1 row.
      save_analysis ?pd ''t1'' ''dQw4w9WgXcQ'' (Some ?a) ?st = (Inr (), st1) \<and>
      List.find (\<lambda>r. ca_videoId r = ''dQw4w9WgXcQ'') (content_analysis st1) = Some row \<and>
      ca_rawAnalysis row = Some (take 262044 (replicate 307200 CHR ''x'') @ truncation_marker) \<and>
      length (take 262044 (replicate 307200 CHR ''x'') @ truncation_marker) \<le> 262144 \<and>
      suffix truncation_marker (take 262044 (replicate 307200 CHR ''x'') @ truncation_marker)"
    by blast
  with len show ?thesis by (rule conjI)
qed

text \<open>
  An analysis whose \<open>analyzedAt\<close> is no date makes the insert throw, and nothing is stored;
  so does a database that does not answer.
\<close>

lemma save_analysis_invalid_date:
  "save_analysis (\<lambda>t. None) ''t1'' ''dQw4w9WgXcQ''
     (Some \<lparr>audienceProblems = JFalsy, emotionalHooks = JFalsy, mythsToBust = JFalsy,
            contentPatterns = JFalsy, audienceLanguage = JFalsy, rawAnalysis = JString ''text'',
            analyzedAt = Some ''yesterday'', analysisModel = None\<rparr>)
     \<lparr>content_analysis = [], store_available = True\<rparr> =
   (Inl (Error ''Invalid time value''), \<lparr>content_analysis = [], store_available = True\<rparr>)"
  by (simp add: save_analysis_def contentAnalysis_values_def)

lemma save_analysis_database_error:
  "\<not> store_available st \<Longrightarrow> analyzedAt a = None \<Longrightarrow>
     save_analysis parse_date now vid (Some a) st =
       (Inl (Error ''Connection terminated unexpectedly''), st)"
  by (simp add: save_analysis_def contentAnalysis_values_def insert_content_analysis_def)

section \<open>Properties of the run ledger\<close>











text \<open>
  The failure path does the same with a failed row: on a ledger without a row for the run and
  without an outage, the \<open>catch\<close> block leaves exactly one row, a failed one.
\<close>

lemma mark_failed_missing:
  assumes "rows_of runId db = []" and "outages db = []"
  shows "\<exists>row. rows_of runId (mark_failed trigger now runId err db) = [row] \<and>
           status row = ''failed'' \<and>
           error_message row = Some (take 1000 (error_string err))"
  using assms
  by (auto simp: mark_failed_def sql_update_def sql_insert_def statement_fails_def rows_of_def
      Let_def list_ex_iff filter_empty_conv)

end
